theory Spec2Isabelle
  imports Complex_Main "HOL-Library.List_Lexorder" "HOL-Library.Char_ord"
    "HOL-Library.Log_Nat"
begin

section \<open>Numbers, identifiers and times of day\<close>

text \<open>
  Amounts (JavaScript \<open>Number\<close>) are rationals, quantities and priorities integers
  (the request schemas ask for integers). The pricing engine and the add-on loop multiply
  and add a few stored prices; the model keeps these products and sums exact, where the
  code has the double nearest to each. The tax step rounds to hundredths, which the last
  bit of a double can decide, so it is modelled on double-precision numbers: it reads its
  arguments as doubles and rounds after every operation, as the code does. Object ids are
  the strings that \<open>_id.toString()\<close> yields.
\<close>

type_synonym object_id = string

text \<open>\<open>x || 0\<close> on an optional number: an absent value and 0 both give 0.\<close>

definition or0 :: "rat option \<Rightarrow> rat" where
  "or0 x = (case x of None \<Rightarrow> 0 | Some v \<Rightarrow> v)"

subsection \<open>Times of day as \<open>"HH:mm"\<close> strings\<close>

text \<open>
  The source keeps times as strings and turns them into minutes with
  \<open>t.split(':').map(Number)\<close>. \<open>Number\<close> is modelled on strings of decimal digits
  (the empty string gives 0, as in JavaScript). \<open>None\<close> stands for \<open>NaN\<close>; a string
  of any other shape is taken to give \<open>NaN\<close>, and the request schemas exclude such
  strings: they only admit those matching \<open>^([01]?[0-9]|2[0-3]):[0-5][0-9]$\<close>, the
  predicate \<open>valid_time\<close>.
\<close>

definition is_digit :: "char \<Rightarrow> bool" where
  "is_digit c = (CHR ''0'' \<le> c \<and> c \<le> CHR ''9'')"

definition digit_val :: "char \<Rightarrow> nat" where
  "digit_val c = of_char c - 48"

definition digit_char :: "nat \<Rightarrow> char" where
  "digit_char n = char_of (48 + n)"

text \<open>\<open>String(n)\<close> for a natural number.\<close>

fun digits_of :: "nat \<Rightarrow> string" where
  "digits_of n =
     (if n < 10 then [digit_char n] else digits_of (n div 10) @ [digit_char (n mod 10)])"

declare digits_of.simps [simp del]

text \<open>\<open>s.padStart(2, '0')\<close>.\<close>

definition padStart2 :: "string \<Rightarrow> string" where
  "padStart2 s = replicate (2 - length s) (CHR ''0'') @ s"

definition Number_str :: "string \<Rightarrow> nat option" where
  "Number_str s =
     (if list_all is_digit s then Some (foldl (\<lambda>a c. 10 * a + digit_val c) 0 s) else None)"

text \<open>\<open>t.split(':')\<close>.\<close>

fun split_colon :: "string \<Rightarrow> string list" where
  "split_colon [] = [[]]"
| "split_colon (c # cs) =
     (if c = CHR '':'' then [] # split_colon cs
      else (case split_colon cs of [] \<Rightarrow> [[c]] | p # ps \<Rightarrow> (c # p) # ps))"

text \<open>The local helper \<open>toMinutes\<close> of \<open>isTimeInRange\<close>, \<open>isTimeOverlapping\<close> and
  \<open>isTimeWithinSlot\<close>: a missing or non-numeric part makes the result \<open>NaN\<close>.\<close>

definition toMinutes :: "string \<Rightarrow> nat option" where
  "toMinutes t =
     (case map Number_str (split_colon t) of
        Some h # Some m # _ \<Rightarrow> Some (h * 60 + m)
      | _ \<Rightarrow> None)"

text \<open>Comparisons of numbers that may be \<open>NaN\<close>: false as soon as one side is.\<close>

definition js_lt :: "nat option \<Rightarrow> nat option \<Rightarrow> bool" where
  "js_lt a b = (case a of None \<Rightarrow> False | Some x \<Rightarrow> (case b of None \<Rightarrow> False | Some y \<Rightarrow> x < y))"

definition js_le :: "nat option \<Rightarrow> nat option \<Rightarrow> bool" where
  "js_le a b = (case a of None \<Rightarrow> False | Some x \<Rightarrow> (case b of None \<Rightarrow> False | Some y \<Rightarrow> x \<le> y))"

definition js_gt :: "nat option \<Rightarrow> nat option \<Rightarrow> bool" where
  "js_gt a b = js_lt b a"

definition js_ge :: "nat option \<Rightarrow> nat option \<Rightarrow> bool" where
  "js_ge a b = js_le b a"

text \<open>The pattern \<open>^([01]?[0-9]|2[0-3]):[0-5][0-9]$\<close> of the validation schemas.\<close>

fun valid_time :: "string \<Rightarrow> bool" where
  "valid_time [h1, h2, c, m1, m2] =
     (((h1 = CHR ''0'' \<or> h1 = CHR ''1'') \<and> is_digit h2
        \<or> h1 = CHR ''2'' \<and> CHR ''0'' \<le> h2 \<and> h2 \<le> CHR ''3'')
      \<and> c = CHR '':'' \<and> CHR ''0'' \<le> m1 \<and> m1 \<le> CHR ''5'' \<and> is_digit m2)"
| "valid_time [h2, c, m1, m2] =
     (is_digit h2 \<and> c = CHR '':'' \<and> CHR ''0'' \<le> m1 \<and> m1 \<le> CHR ''5'' \<and> is_digit m2)"
| "valid_time _ = False"

text \<open>A valid time written with two hour digits, \<open>"HH:mm"\<close>.\<close>

fun hhmm_time :: "string \<Rightarrow> bool" where
  "hhmm_time [h1, h2, c, m1, m2] = valid_time [h1, h2, c, m1, m2]"
| "hhmm_time _ = False"

text \<open>A valid \<open>Date\<close> as far as the pricing engine reads it: \<open>getDay()\<close>,
  \<open>getHours()\<close>, \<open>getMinutes()\<close>.\<close>

record instant =
  getDay :: nat
  getHours :: nat
  getMinutes :: nat

text \<open>A \<open>Date\<close> object holds a valid instant or is \<open>Invalid Date\<close>, whose getters all
  return \<open>NaN\<close> (\<open>None\<close>).\<close>

datatype js_date = Date instant | Invalid_Date

definition Date_getDay :: "js_date \<Rightarrow> nat option" where
  "Date_getDay d = (case d of Date i \<Rightarrow> Some (getDay i) | Invalid_Date \<Rightarrow> None)"

definition Date_getHours :: "js_date \<Rightarrow> nat option" where
  "Date_getHours d = (case d of Date i \<Rightarrow> Some (getHours i) | Invalid_Date \<Rightarrow> None)"

definition Date_getMinutes :: "js_date \<Rightarrow> nat option" where
  "Date_getMinutes d = (case d of Date i \<Rightarrow> Some (getMinutes i) | Invalid_Date \<Rightarrow> None)"

text \<open>\<open>String(x)\<close> for the result of a getter.\<close>

definition String_of :: "nat option \<Rightarrow> string" where
  "String_of x = (case x of None \<Rightarrow> ''NaN'' | Some n \<Rightarrow> digits_of n)"

text \<open>A calendar date (\<open>booking_date\<close>) is a day number counted from 1970-01-01, a
  Thursday; \<open>date_getDay\<close> is \<open>new Date(bookingDate).getDay()\<close> (0 is Sunday).\<close>

type_synonym date = nat

definition date_getDay :: "date \<Rightarrow> nat" where
  "date_getDay d = (d + 4) mod 7"

section \<open>Pricing configuration (models/Item.js)\<close>

datatype pricing_type = STATIC | TIERED | COMPLIMENTARY | DISCOUNTED | DYNAMIC

datatype discount_type = FLAT | PERCENTAGE

record tier =
  min_quantity :: int
  max_quantity :: int
  tier_price :: rat

record discount_cfg =
  discount_kind :: "discount_type option"
  discount_value :: "rat option"

record dynamic_rule =
  rule_name :: string
  rule_days :: "nat list option"
  rule_start_time :: string
  rule_end_time :: string
  rule_price :: rat
  rule_priority :: int

record pricing_config =
  ptype :: pricing_type
  base_price :: "rat option"
  tiers :: "tier list"
  discount :: "discount_cfg option"
  dynamic_rules :: "dynamic_rule list"
  default_price :: "rat option"

section \<open>Pricing engine (utils/pricingEngine.js)\<close>

text \<open>The label \<open>pricing_rule_applied\<close>; each constructor stands for one of the
  template strings of the source.\<close>

datatype rule_label =
    Fixed_Price
  | Tier_Label int int
  | Default_Overflow
  | Complimentary_Label
  | No_discount
  | Flat_discount rat
  | Percent_off rat
  | Rule_Name string
  | Default_Price

datatype tier_details = Tier_Of tier | Default_Tier rat

record price_result =
  pricing_type :: pricing_type
  pricing_rule_applied :: rule_label
  unit_price :: rat
  res_quantity :: int
  res_base_price :: rat
  discount_amount :: rat
  calculated_price :: rat
  res_tier_details :: "tier_details option"
  res_rule_details :: "dynamic_rule option"

definition calculateStaticPrice :: "pricing_config \<Rightarrow> int \<Rightarrow> price_result" where
  "calculateStaticPrice pc q =
     (let basePrice = or0 (base_price pc);
          totalPrice = basePrice * of_int q
      in \<lparr>pricing_type = STATIC, pricing_rule_applied = Fixed_Price,
          unit_price = basePrice, res_quantity = q, res_base_price = totalPrice,
          discount_amount = 0, calculated_price = totalPrice,
          res_tier_details = None, res_rule_details = None\<rparr>)"

definition calculateComplimentaryPrice :: price_result where
  "calculateComplimentaryPrice =
     \<lparr>pricing_type = COMPLIMENTARY, pricing_rule_applied = Complimentary_Label,
      unit_price = 0, res_quantity = 1, res_base_price = 0,
      discount_amount = 0, calculated_price = 0,
      res_tier_details = None, res_rule_details = None\<rparr>"

text \<open>The discount chosen by the \<open>if\<close> cascade of \<open>calculateDiscountedPrice\<close>,
  before the clamp: amount and description.\<close>

definition discount_of :: "pricing_config \<Rightarrow> rat \<Rightarrow> rat \<times> rule_label" where
  "discount_of pc totalBase =
     (case discount pc of
        None \<Rightarrow> (0, No_discount)
      | Some d \<Rightarrow>
          (case discount_kind d of
             None \<Rightarrow> (0, No_discount)
           | Some FLAT \<Rightarrow>
               (or0 (discount_value d), Flat_discount (or0 (discount_value d)))
           | Some PERCENTAGE \<Rightarrow>
               ((totalBase * or0 (discount_value d)) / 100,
                Percent_off (or0 (discount_value d)))))"

definition calculateDiscountedPrice :: "pricing_config \<Rightarrow> int \<Rightarrow> price_result" where
  "calculateDiscountedPrice pc q =
     (let basePrice = or0 (base_price pc);
          totalBase = basePrice * of_int q;
          discountAmount = min (fst (discount_of pc totalBase)) totalBase;
          finalPrice = totalBase - discountAmount
      in \<lparr>pricing_type = DISCOUNTED,
          pricing_rule_applied = snd (discount_of pc totalBase),
          unit_price = basePrice, res_quantity = q, res_base_price = totalBase,
          discount_amount = discountAmount, calculated_price = finalPrice,
          res_tier_details = None, res_rule_details = None\<rparr>)"

text \<open>The \<open>for \<dots> break\<close> loop of \<open>calculateTieredPrice\<close> over the sorted tiers.\<close>

fun find_tier :: "tier list \<Rightarrow> int \<Rightarrow> tier option" where
  "find_tier [] q = None"
| "find_tier (t # ts) q =
     (if q \<ge> min_quantity t \<and> q \<le> max_quantity t then Some t else find_tier ts q)"

text \<open>\<open>[...tiers].sort((a, b) => a.min_quantity - b.min_quantity)\<close>: a stable sort.\<close>

definition sortedTiers :: "pricing_config \<Rightarrow> tier list" where
  "sortedTiers pc = sort_key min_quantity (tiers pc)"

definition tier_unit_price :: "tier_details \<Rightarrow> rat" where
  "tier_unit_price d = (case d of Tier_Of t \<Rightarrow> tier_price t | Default_Tier p \<Rightarrow> p)"

definition calculateTieredPrice :: "pricing_config \<Rightarrow> int \<Rightarrow> price_result" where
  "calculateTieredPrice pc q =
     (let sorted = sortedTiers pc;
          (applicableTier, tierName) =
            (case find_tier sorted q of
               Some t \<Rightarrow> (Tier_Of t, Tier_Label (min_quantity t) (max_quantity t))
             | None \<Rightarrow>
                 (if sorted = [] then Default_Tier (or0 (default_price pc))
                  else Tier_Of (last sorted),
                  Default_Overflow));
          unitPrice = tier_unit_price applicableTier;
          totalPrice = unitPrice * of_int q
      in \<lparr>pricing_type = TIERED, pricing_rule_applied = tierName,
          unit_price = unitPrice, res_quantity = q, res_base_price = totalPrice,
          discount_amount = 0, calculated_price = totalPrice,
          res_tier_details = Some applicableTier, res_rule_details = None\<rparr>)"

definition isTimeInRange :: "string \<Rightarrow> string \<Rightarrow> string \<Rightarrow> bool" where
  "isTimeInRange time startTime endTime =
     (let current = toMinutes time;
          start = toMinutes startTime;
          end = toMinutes endTime
      in if js_lt end start then js_ge current start \<or> js_lt current end
         else js_ge current start \<and> js_lt current end)"

text \<open>The string \<open>currentTime\<close> that \<open>calculateDynamicPrice\<close> builds from the date; for
  \<open>Invalid Date\<close> it is \<open>"NaN:NaN"\<close>.\<close>

definition currentTime_of :: "js_date \<Rightarrow> string" where
  "currentTime_of d =
     padStart2 (String_of (Date_getHours d)) @ '':'' @ padStart2 (String_of (Date_getMinutes d))"

text \<open>\<open>!rule.days || rule.days.length === 0 || rule.days.includes(dayOfWeek)\<close>; a list of
  days of the week does not include \<open>NaN\<close>.\<close>

definition isDayMatch :: "dynamic_rule \<Rightarrow> nat option \<Rightarrow> bool" where
  "isDayMatch rule dayOfWeek =
     (case rule_days rule of
        None \<Rightarrow> True
      | Some ds \<Rightarrow>
          length ds = 0 \<or> (case dayOfWeek of None \<Rightarrow> False | Some d \<Rightarrow> d \<in> set ds))"

text \<open>The test \<open>isDayMatch && isTimeMatch\<close> in the body of the loop over the rules.\<close>

definition rule_matches :: "dynamic_rule \<Rightarrow> nat option \<Rightarrow> string \<Rightarrow> bool" where
  "rule_matches rule dayOfWeek currentTime =
     (isDayMatch rule dayOfWeek
      \<and> isTimeInRange currentTime (rule_start_time rule) (rule_end_time rule))"

fun find_rule :: "dynamic_rule list \<Rightarrow> nat option \<Rightarrow> string \<Rightarrow> dynamic_rule option" where
  "find_rule [] dayOfWeek currentTime = None"
| "find_rule (r # rs) dayOfWeek currentTime =
     (if rule_matches r dayOfWeek currentTime then Some r
      else find_rule rs dayOfWeek currentTime)"

text \<open>\<open>[...rules].sort((a, b) => (b.priority || 0) - (a.priority || 0))\<close>: a stable sort
  by descending priority.\<close>

definition sortedRules :: "pricing_config \<Rightarrow> dynamic_rule list" where
  "sortedRules pc = sort_key (\<lambda>r. - rule_priority r) (dynamic_rules pc)"

definition calculateDynamicPrice :: "pricing_config \<Rightarrow> int \<Rightarrow> js_date \<Rightarrow> price_result" where
  "calculateDynamicPrice pc q datetime =
     (let dayOfWeek = Date_getDay datetime;
          currentTime = currentTime_of datetime;
          applicableRule = find_rule (sortedRules pc) dayOfWeek currentTime;
          unitPrice = (case applicableRule of
                         Some r \<Rightarrow> rule_price r
                       | None \<Rightarrow> or0 (default_price pc));
          ruleName = (case applicableRule of
                        Some r \<Rightarrow> Rule_Name (rule_name r)
                      | None \<Rightarrow> Default_Price);
          totalPrice = unitPrice * of_int q
      in \<lparr>pricing_type = DYNAMIC, pricing_rule_applied = ruleName,
          unit_price = unitPrice, res_quantity = q, res_base_price = totalPrice,
          discount_amount = 0, calculated_price = totalPrice,
          res_tier_details = None, res_rule_details = applicableRule\<rparr>)"

text \<open>\<open>PricingEngine.calculatePrice\<close>. The pricing type is one of the five of the
  schema's enumeration, so the \<open>default\<close> branch that throws has no counterpart.\<close>

definition PricingEngine_calculatePrice ::
    "pricing_config \<Rightarrow> int \<Rightarrow> js_date \<Rightarrow> price_result" where
  "PricingEngine_calculatePrice pc q datetime =
     (case ptype pc of
        STATIC \<Rightarrow> calculateStaticPrice pc q
      | TIERED \<Rightarrow> calculateTieredPrice pc q
      | COMPLIMENTARY \<Rightarrow> calculateComplimentaryPrice
      | DISCOUNTED \<Rightarrow> calculateDiscountedPrice pc q
      | DYNAMIC \<Rightarrow> calculateDynamicPrice pc q datetime)"

datatype config_error =
    Static_requires_base_price
  | Tiered_requires_tier
  | Tier_overlap nat nat
  | Discounted_requires_base_price
  | Discounted_requires_discount
  | Dynamic_requires_rule
  | Dynamic_requires_default_price

text \<open>The loop \<open>for (let i = 0; i < tiers.length - 1; i++)\<close> of
  \<open>validatePricingConfig\<close>, started at index \<open>i\<close>.\<close>

fun tier_overlaps :: "nat \<Rightarrow> tier list \<Rightarrow> config_error list" where
  "tier_overlaps i (a # b # ts) =
     (if max_quantity a \<ge> min_quantity b then [Tier_overlap (i + 1) (i + 2)] else [])
     @ tier_overlaps (i + 1) (b # ts)"
| "tier_overlaps i ts = []"

definition missing_or_negative :: "rat option \<Rightarrow> bool" where
  "missing_or_negative p = (case p of None \<Rightarrow> True | Some v \<Rightarrow> v < 0)"

text \<open>\<open>validatePricingConfig\<close>: the list \<open>errors\<close>; the configuration is valid when it
  is empty.\<close>

definition validatePricingConfig :: "pricing_config \<Rightarrow> config_error list" where
  "validatePricingConfig pc =
     (case ptype pc of
        STATIC \<Rightarrow>
          (if missing_or_negative (base_price pc) then [Static_requires_base_price] else [])
      | TIERED \<Rightarrow>
          (if length (tiers pc) = 0 then [Tiered_requires_tier]
           else tier_overlaps 0 (sort_key min_quantity (tiers pc)))
      | DISCOUNTED \<Rightarrow>
          (if missing_or_negative (base_price pc) then [Discounted_requires_base_price] else [])
          @ (if (case discount pc of None \<Rightarrow> True | Some d \<Rightarrow> discount_kind d = None)
             then [Discounted_requires_discount] else [])
      | DYNAMIC \<Rightarrow>
          (if length (dynamic_rules pc) = 0 then [Dynamic_requires_rule] else [])
          @ (if default_price pc = None then [Dynamic_requires_default_price] else [])
      | COMPLIMENTARY \<Rightarrow> [])"

definition config_valid :: "pricing_config \<Rightarrow> bool" where
  "config_valid pc = (validatePricingConfig pc = [])"

text \<open>What the item schemas (Joi and Mongoose) add to \<open>validatePricingConfig\<close>: prices
  and discount values are not negative, and a tier has
  \<open>min_quantity \<le> max_quantity\<close>.\<close>

definition tier_schema_ok :: "tier \<Rightarrow> bool" where
  "tier_schema_ok t =
     (0 \<le> min_quantity t \<and> min_quantity t \<le> max_quantity t \<and> 0 \<le> tier_price t)"

definition discount_schema_ok :: "pricing_config \<Rightarrow> bool" where
  "discount_schema_ok pc =
     (case discount pc of
        None \<Rightarrow> True
      | Some d \<Rightarrow> (case discount_value d of None \<Rightarrow> True | Some v \<Rightarrow> 0 \<le> v))"

section \<open>Tax engine (utils/taxEngine.js)\<close>

record category =
  cat_id :: object_id
  cat_name :: string
  cat_tax_applicable :: bool
  cat_tax_percentage :: "rat option"

text \<open>A subcategory as the tax engine reads it; \<open>sub_category\<close> is the category
  document that \<open>subcategory.category\<close> resolves to, if any.\<close>

record subcategory =
  sub_id :: object_id
  sub_name :: string
  sub_tax_applicable :: "bool option"
  sub_tax_percentage :: "rat option"
  sub_category :: "category option"

datatype tax_source = From_item | From_subcategory | From_category | From_default

record effective_tax =
  tax_applicable :: bool
  tax_percentage :: rat
  inherited_from :: tax_source
  source_id :: "object_id option"

subsection \<open>Double-precision numbers\<close>

text \<open>
  A JavaScript number is an IEEE 754 double; every double is a rational. \<open>fl x\<close> is the
  double nearest to the rational \<open>x\<close>: the multiple of the unit in the last place of
  \<open>x\<close> that is nearest to it, a tie going to the even multiple. \<open>ilog2 x\<close> is the
  binary exponent \<open>e\<close> of a positive \<open>x\<close>, \<open>pow2 e \<le> x < pow2 (e + 1)\<close>; the mantissa
  has 53 bits and the exponent does not go below -1022 (subnormal numbers). The product,
  quotient or sum of two doubles that the machine returns is \<open>fl\<close> of the exact one. A
  result beyond the largest double, \<open>Infinity\<close> in the code, is outside this model.
\<close>

definition pow2 :: "int \<Rightarrow> rat" where
  "pow2 e = (if 0 \<le> e then 2 ^ nat e else 1 / 2 ^ nat (- e))"

definition ilog2 :: "rat \<Rightarrow> int" where
  "ilog2 x =
     (let (p, q) = quotient_of x;
          d = bitlen p - bitlen q
      in if pow2 d \<le> x then d else d - 1)"

definition round_half_even :: "rat \<Rightarrow> int" where
  "round_half_even x =
     (let n = \<lfloor>x\<rfloor>; r = x - of_int n
      in if r < 1 / 2 then n else if 1 / 2 < r then n + 1
         else if even n then n else n + 1)"

definition fl :: "rat \<Rightarrow> rat" where
  "fl x =
     (if x = 0 then 0
      else let u = pow2 (max (ilog2 \<bar>x\<bar>) (- 1022) - 52)
           in of_int (round_half_even (x / u)) * u)"

text \<open>\<open>Math.round\<close>: the nearest integer, a tie going up; exact on every double.\<close>

definition Math_round :: "rat \<Rightarrow> int" where
  "Math_round x = \<lfloor>x + 1 / 2\<rfloor>"

text \<open>The idiom \<open>Math.round(x * 100) / 100\<close> on a double \<open>x\<close>.\<close>

definition round2 :: "rat \<Rightarrow> rat" where
  "round2 x = fl (of_int (Math_round (fl (x * 100))) / 100)"

subsection \<open>The tax step\<close>

record tax_calculation =
  original_amount :: rat
  calc_tax_percentage :: rat
  tax_amount :: rat
  total_with_tax :: rat

text \<open>
  \<open>calculateTax\<close>, operation by operation: \<open>(amount * taxPercentage) / 100\<close>, then
  \<open>Math.round(taxAmount * 100) / 100\<close> and \<open>Math.round((amount + taxAmount) * 100) / 100\<close>.
  The two arguments are read as doubles: a rational that is not a double stands for the
  double nearest to it, as a decimal literal does, and a double stands for itself
  (\<open>fl_fixed\<close> below).
\<close>

definition calculateTax :: "rat \<Rightarrow> rat \<Rightarrow> tax_calculation" where
  "calculateTax amount taxPercentage =
     (let taxAmount = fl (fl (fl amount * fl taxPercentage) / 100)
      in \<lparr>original_amount = amount, calc_tax_percentage = taxPercentage,
          tax_amount = round2 taxAmount,
          total_with_tax = round2 (fl (fl amount + taxAmount))\<rparr>)"

section \<open>Add-on groups (models/AddonGroup.js)\<close>

datatype addon_type = OPTIONAL | MANDATORY

record addon =
  addon_id :: object_id
  addon_name :: string
  addon_price :: rat
  addon_is_active :: bool

record addon_group =
  group_id :: object_id
  group_name :: string
  group_type :: addon_type
  min_selections :: nat
  max_selections :: nat
  addons :: "addon list"

text \<open>\<open>calculateSelectedPrice\<close>: the loop adds the price of every active add-on whose
  id is among the selected ids.\<close>

definition calculateSelectedPrice :: "addon_group \<Rightarrow> object_id list \<Rightarrow> rat" where
  "calculateSelectedPrice g selectedAddonIds =
     foldl (\<lambda>total a.
              if addon_id a \<in> set selectedAddonIds \<and> addon_is_active a
              then total + addon_price a else total)
       0 (addons g)"

datatype selection_error = Minimum_required nat string | Maximum_allowed nat string

datatype validation = Valid | Invalid selection_error

definition validateSelections :: "addon_group \<Rightarrow> object_id list \<Rightarrow> validation" where
  "validateSelections g selectedAddonIds =
     (let activeAddons = filter addon_is_active (addons g);
          validSelections =
            filter (\<lambda>i. list_ex (\<lambda>a. addon_id a = i) activeAddons) selectedAddonIds
      in if length validSelections < min_selections g
         then Invalid (Minimum_required (min_selections g) (group_name g))
         else if length validSelections > max_selections g
         then Invalid (Maximum_allowed (max_selections g) (group_name g))
         else Valid)"

section \<open>Items (models/Item.js) and the tax resolver\<close>

record availability_slot =
  slot_day :: nat
  slot_start_time :: string
  slot_end_time :: string
  max_bookings :: nat

text \<open>An item with its references populated: \<open>item_category\<close> and
  \<open>item_subcategory\<close> are the documents the references resolve to (\<open>None\<close> when the
  reference is absent or dangling), \<open>addon_groups\<close> the populated groups.\<close>

record item =
  item_id :: object_id
  item_name :: string
  item_category :: "category option"
  item_subcategory :: "subcategory option"
  item_tax_applicable :: "bool option"
  item_tax_percentage :: "rat option"
  pricing :: pricing_config
  is_bookable :: bool
  availability_slots :: "availability_slot list"
  addon_groups :: "addon_group list"
  is_active :: bool

definition category_tax :: "category \<Rightarrow> effective_tax" where
  "category_tax c =
     \<lparr>tax_applicable = cat_tax_applicable c,
      tax_percentage = (if cat_tax_applicable c then or0 (cat_tax_percentage c) else 0),
      inherited_from = From_category,
      source_id = Some (cat_id c)\<rparr>"

definition default_tax :: effective_tax where
  "default_tax =
     \<lparr>tax_applicable = False, tax_percentage = 0,
      inherited_from = From_default, source_id = None\<rparr>"

text \<open>The tail of \<open>getEffectiveTax\<close>: the item's own category, then the default.\<close>

definition item_category_tax :: "item \<Rightarrow> effective_tax" where
  "item_category_tax it =
     (case item_category it of
        Some c \<Rightarrow> category_tax c
      | None \<Rightarrow> default_tax)"

definition getEffectiveTax :: "item \<Rightarrow> effective_tax" where
  "getEffectiveTax it =
     (case item_tax_applicable it of
        Some a \<Rightarrow>
          \<lparr>tax_applicable = a,
           tax_percentage = (if a then or0 (item_tax_percentage it) else 0),
           inherited_from = From_item,
           source_id = Some (item_id it)\<rparr>
      | None \<Rightarrow>
          (case item_subcategory it of
             Some s \<Rightarrow>
               (case sub_tax_applicable s of
                  Some a \<Rightarrow>
                    \<lparr>tax_applicable = a,
                     tax_percentage = (if a then or0 (sub_tax_percentage s) else 0),
                     inherited_from = From_subcategory,
                     source_id = Some (sub_id s)\<rparr>
                | None \<Rightarrow>
                    (case sub_category s of
                       Some c \<Rightarrow> category_tax c
                     | None \<Rightarrow> item_category_tax it))
           | None \<Rightarrow> item_category_tax it))"

section \<open>The quote: \<open>ItemService.calculatePrice\<close> (services/itemService.js)\<close>

datatype service_error =
    Item_not_found
  | Item_not_available
  | Selection_rejected selection_error
  | Booking_not_found
  | Cannot_update_booking
  | Time_slot_conflict "object_id list"
  | Validation_failed

record addon_selection =
  sel_addon_group :: object_id
  sel_addon_ids :: "object_id list"

record addon_detail =
  detail_group_name :: string
  detail_selected_addons :: "(string \<times> rat) list"
  detail_total_price :: rat

record pricing_details =
  pd_pricing_type :: pricing_type
  pd_pricing_rule_applied :: rule_label
  pd_unit_price :: rat
  pd_quantity :: int
  pd_base_price :: rat
  pd_discount_amount :: rat

record tax_info =
  ti_applicable :: bool
  ti_percentage :: rat
  ti_inherited_from :: tax_source
  ti_amount :: rat

record quote =
  quote_pricing_details :: pricing_details
  addons_details :: "addon_detail list"
  addons_total :: rat
  subtotal :: rat
  quote_tax :: tax_info
  final_price :: rat

text \<open>The loop \<open>for (const addonSelection of addons)\<close>, with the running
  \<open>addonsTotal\<close> and \<open>addonDetails\<close>; a failed validation is the \<open>throw\<close>.\<close>

fun price_addons ::
    "addon_group list \<Rightarrow> addon_selection list \<Rightarrow> rat \<Rightarrow> addon_detail list
      \<Rightarrow> service_error + rat \<times> addon_detail list" where
  "price_addons groups [] addonsTotal addonDetails = Inr (addonsTotal, addonDetails)"
| "price_addons groups (sel # sels) addonsTotal addonDetails =
     (case find (\<lambda>g. group_id g = sel_addon_group sel) groups of
        None \<Rightarrow> price_addons groups sels addonsTotal addonDetails
      | Some addonGroup \<Rightarrow>
          (case validateSelections addonGroup (sel_addon_ids sel) of
             Invalid e \<Rightarrow> Inl (Selection_rejected e)
           | Valid \<Rightarrow>
               (let addonPrice = calculateSelectedPrice addonGroup (sel_addon_ids sel);
                    selectedAddons =
                      filter (\<lambda>a. addon_id a \<in> set (sel_addon_ids sel)) (addons addonGroup)
                in price_addons groups sels (addonsTotal + addonPrice)
                     (addonDetails @
                        [\<lparr>detail_group_name = group_name addonGroup,
                          detail_selected_addons =
                            map (\<lambda>a. (addon_name a, addon_price a)) selectedAddons,
                          detail_total_price = addonPrice\<rparr>]))))"

text \<open>\<open>calculatePrice\<close>; the first argument is what \<open>Item.findById(id)\<close> with its three
  \<open>populate\<close> calls returns. The echo of the item's names and the time stamp
  \<open>calculated_at\<close> are left out of the result.\<close>

definition calculatePrice ::
    "item option \<Rightarrow> int \<Rightarrow> js_date \<Rightarrow> addon_selection list \<Rightarrow> service_error + quote" where
  "calculatePrice found q datetime addonSels =
     (case found of
        None \<Rightarrow> Inl Item_not_found
      | Some it \<Rightarrow>
          if \<not> is_active it then Inl Item_not_available
          else
            (let priceResult = PricingEngine_calculatePrice (pricing it) q datetime
             in case price_addons (addon_groups it) addonSels 0 [] of
                  Inl e \<Rightarrow> Inl e
                | Inr (addonsTotal, addonDetails) \<Rightarrow>
                    (let sub = calculated_price priceResult + addonsTotal;
                         effectiveTax = getEffectiveTax it;
                         taxCalculation = calculateTax sub (tax_percentage effectiveTax)
                     in Inr
                          \<lparr>quote_pricing_details =
                             \<lparr>pd_pricing_type = pricing_type priceResult,
                              pd_pricing_rule_applied = pricing_rule_applied priceResult,
                              pd_unit_price = unit_price priceResult,
                              pd_quantity = res_quantity priceResult,
                              pd_base_price = res_base_price priceResult,
                              pd_discount_amount = discount_amount priceResult\<rparr>,
                           addons_details = addonDetails,
                           addons_total = addonsTotal,
                           subtotal = sub,
                           quote_tax =
                             \<lparr>ti_applicable = tax_applicable effectiveTax,
                              ti_percentage = tax_percentage effectiveTax,
                              ti_inherited_from = inherited_from effectiveTax,
                              ti_amount = tax_amount taxCalculation\<rparr>,
                           final_price = total_with_tax taxCalculation\<rparr>)))"

section \<open>Bookings (models/Booking.js, class \<open>BookingService\<close>)\<close>

datatype booking_status = PENDING | CONFIRMED | CANCELLED | COMPLETED

text \<open>A selection of a booking document; the price is absent on a selection that
  \<open>Object.assign\<close> has taken over from an update request, which carries none.\<close>

record selected_addon =
  sa_addon_group :: object_id
  sa_addon_ids :: "object_id list"
  sa_price :: "rat option"

record price_breakdown =
  pb_base_price :: rat
  pb_pricing_type :: pricing_type
  pb_pricing_rule_applied :: rule_label
  pb_discount_amount :: rat
  pb_addons_total :: rat
  pb_subtotal :: rat
  pb_tax_percentage :: rat
  pb_tax_amount :: rat
  pb_final_price :: rat

record booking =
  booking_id :: object_id
  booking_item :: object_id
  booking_date :: date
  booking_start_time :: string
  booking_end_time :: string
  booking_quantity :: int
  selected_addons :: "selected_addon list"
  booking_price_breakdown :: price_breakdown
  booking_status :: booking_status

text \<open>The three alternatives of the \<open>$or\<close> of \<open>findConflicts\<close>; the store compares
  the time strings as strings.\<close>

definition conflict_query :: "string \<Rightarrow> string \<Rightarrow> booking \<Rightarrow> bool" where
  "conflict_query startTime endTime b =
     (booking_start_time b \<le> startTime \<and> booking_end_time b > startTime
      \<or> booking_start_time b < endTime \<and> booking_end_time b \<ge> endTime
      \<or> booking_start_time b \<ge> startTime \<and> booking_end_time b \<le> endTime)"

text \<open>\<open>findConflicts\<close>, the first argument being the collection of bookings.\<close>

definition findConflicts ::
    "booking list \<Rightarrow> object_id \<Rightarrow> date \<Rightarrow> string \<Rightarrow> string \<Rightarrow> object_id option
      \<Rightarrow> booking list" where
  "findConflicts store itemId bookingDate startTime endTime excludeBookingId =
     filter (\<lambda>b. booking_item b = itemId
                \<and> booking_date b = bookingDate
                \<and> booking_status b \<notin> set [CANCELLED]
                \<and> conflict_query startTime endTime b
                \<and> (case excludeBookingId of None \<Rightarrow> True | Some x \<Rightarrow> booking_id b \<noteq> x))
       store"

definition isTimeOverlapping :: "string \<Rightarrow> string \<Rightarrow> string \<Rightarrow> string \<Rightarrow> bool" where
  "isTimeOverlapping start1 end1 start2 end2 =
     (let s1 = toMinutes start1; e1 = toMinutes end1;
          s2 = toMinutes start2; e2 = toMinutes end2
      in js_lt s1 e2 \<and> js_gt e1 s2)"

definition isTimeWithinSlot :: "string \<Rightarrow> string \<Rightarrow> string \<Rightarrow> string \<Rightarrow> bool" where
  "isTimeWithinSlot startTime endTime slotStart slotEnd =
     (let st = toMinutes startTime; et = toMinutes endTime;
          ss = toMinutes slotStart; se = toMinutes slotEnd
      in js_ge st ss \<and> js_le et se)"

datatype unavailable_reason = Not_within_available_hours

datatype availability = Available "availability_slot option" | Unavailable unavailable_reason

definition checkAvailability :: "item \<Rightarrow> date \<Rightarrow> string \<Rightarrow> string \<Rightarrow> availability" where
  "checkAvailability it bookingDate startTime endTime =
     (if length (availability_slots it) = 0 then Available None
      else
        (let dayOfWeek = date_getDay bookingDate
         in case find (\<lambda>slot. slot_day slot = dayOfWeek
                         \<and> isTimeWithinSlot startTime endTime
                              (slot_start_time slot) (slot_end_time slot))
                   (availability_slots it) of
              None \<Rightarrow> Unavailable Not_within_available_hours
            | Some matchingSlot \<Rightarrow> Available (Some matchingSlot)))"

text \<open>The body of an update request, as far as \<open>update\<close> reads it.\<close>

record booking_update =
  upd_booking_date :: "date option"
  upd_start_time :: "string option"
  upd_end_time :: "string option"
  upd_quantity :: "int option"
  upd_selected_addons :: "addon_selection list option"
  upd_status :: "booking_status option"

text \<open>\<open>data.x || booking.x\<close>: an empty string and the number 0 are falsy.\<close>

definition str_or :: "string option \<Rightarrow> string \<Rightarrow> string" where
  "str_or x d = (case x of None \<Rightarrow> d | Some s \<Rightarrow> if s = [] then d else s)"

definition int_or :: "int option \<Rightarrow> int \<Rightarrow> int" where
  "int_or x d = (case x of None \<Rightarrow> d | Some n \<Rightarrow> if n = 0 then d else n)"

definition some_or :: "'a option \<Rightarrow> 'a \<Rightarrow> 'a" where
  "some_or x d = (case x of None \<Rightarrow> d | Some v \<Rightarrow> v)"

definition truthy_str :: "string option \<Rightarrow> bool" where
  "truthy_str x = (case x of None \<Rightarrow> False | Some s \<Rightarrow> s \<noteq> [])"

definition truthy_int :: "int option \<Rightarrow> bool" where
  "truthy_int x = (case x of None \<Rightarrow> False | Some n \<Rightarrow> n \<noteq> 0)"

text \<open>The object literal that \<open>create\<close> and \<open>update\<close> store as \<open>price_breakdown\<close>.\<close>

definition breakdown_of :: "quote \<Rightarrow> price_breakdown" where
  "breakdown_of priceCalculation =
     \<lparr>pb_base_price = pd_base_price (quote_pricing_details priceCalculation),
      pb_pricing_type = pd_pricing_type (quote_pricing_details priceCalculation),
      pb_pricing_rule_applied = pd_pricing_rule_applied (quote_pricing_details priceCalculation),
      pb_discount_amount = pd_discount_amount (quote_pricing_details priceCalculation),
      pb_addons_total = addons_total priceCalculation,
      pb_subtotal = subtotal priceCalculation,
      pb_tax_percentage = ti_percentage (quote_tax priceCalculation),
      pb_tax_amount = ti_amount (quote_tax priceCalculation),
      pb_final_price = final_price priceCalculation\<rparr>"

definition stored_selection :: "selected_addon \<Rightarrow> addon_selection" where
  "stored_selection a = \<lparr>sel_addon_group = sa_addon_group a, sel_addon_ids = sa_addon_ids a\<rparr>"

definition requested_selection :: "addon_selection \<Rightarrow> selected_addon" where
  "requested_selection a =
     \<lparr>sa_addon_group = sel_addon_group a, sa_addon_ids = sel_addon_ids a, sa_price = None\<rparr>"

text \<open>\<open>Object.assign(booking, data)\<close>: every key present in the request replaces the
  booking's value.\<close>

definition assign_update :: "booking \<Rightarrow> booking_update \<Rightarrow> booking" where
  "assign_update b data =
     b\<lparr>booking_date := some_or (upd_booking_date data) (booking_date b),
       booking_start_time := some_or (upd_start_time data) (booking_start_time b),
       booking_end_time := some_or (upd_end_time data) (booking_end_time b),
       booking_quantity := some_or (upd_quantity data) (booking_quantity b),
       selected_addons :=
         (case upd_selected_addons data of
            None \<Rightarrow> selected_addons b
          | Some sels \<Rightarrow> map requested_selection sels),
       booking_status := some_or (upd_status data) (booking_status b)\<rparr>"

text \<open>
  The \<open>datetime\<close> of the re-quote,
  \<open>new Date((data.booking_date || booking.booking_date) + 'T' + (data.start_time || booking.start_time))\<close>.
  The booking date is a \<open>Date\<close> object, in the stored booking (schema type \<open>Date\<close>) and
  in the request (\<open>Joi.date()\<close>), so the sum is the text of \<open>Date.prototype.toString\<close>
  followed by \<open>T\<close> and the time; that is not a date-time string and the result is
  \<open>Invalid Date\<close>, whatever the date and the time.
\<close>

definition requote_datetime :: "date \<Rightarrow> string \<Rightarrow> js_date" where
  "requote_datetime bookingDate startTime = Invalid_Date"

text \<open>
  \<open>booking.save()\<close> runs the validators of the schema and throws when one fails. On the
  fields modelled here these are: start and end time \<open>required\<close>, the quantity at least 1,
  the \<open>price\<close> of every selected add-on \<open>required\<close> and at least 0, and
  \<open>price_breakdown.base_price\<close> at least 0.
\<close>

definition validators_pass :: "booking \<Rightarrow> bool" where
  "validators_pass b =
     (booking_start_time b \<noteq> [] \<and> booking_end_time b \<noteq> []
      \<and> 1 \<le> booking_quantity b
      \<and> list_all (\<lambda>a. case sa_price a of None \<Rightarrow> False | Some p \<Rightarrow> 0 \<le> p)
            (selected_addons b)
      \<and> 0 \<le> pb_base_price (booking_price_breakdown b))"

definition save :: "booking \<Rightarrow> service_error + booking" where
  "save b = (if validators_pass b then Inr b else Inl Validation_failed)"

text \<open>
  \<open>BookingService.update\<close>. \<open>store\<close> stands for the collection of bookings,
  \<open>foundItem\<close> for the item that \<open>ItemService.calculatePrice\<close> finds under
  \<open>booking.item\<close>, \<open>found\<close> for the result of \<open>Booking.findById(id)\<close>. The result is
  the document that \<open>booking.save()\<close> has stored.
\<close>

definition update ::
    "booking list \<Rightarrow> item option \<Rightarrow> booking option \<Rightarrow> booking_update
      \<Rightarrow> service_error + booking" where
  "update store foundItem found data =
     (case found of
        None \<Rightarrow> Inl Booking_not_found
      | Some b \<Rightarrow>
          if booking_status b \<in> set [CANCELLED, COMPLETED] then Inl Cannot_update_booking
          else
            (let conflicts =
                   (if truthy_str (upd_start_time data) \<or> truthy_str (upd_end_time data)
                       \<or> upd_booking_date data \<noteq> None
                    then findConflicts store (booking_item b)
                           (some_or (upd_booking_date data) (booking_date b))
                           (str_or (upd_start_time data) (booking_start_time b))
                           (str_or (upd_end_time data) (booking_end_time b))
                           (Some (booking_id b))
                    else [])
             in if length conflicts > 0
                then Inl (Time_slot_conflict (map booking_id conflicts))
                else if truthy_int (upd_quantity data) \<or> upd_selected_addons data \<noteq> None
                then
                  (let addonsForPricing =
                         (case upd_selected_addons data of
                            Some sels \<Rightarrow> sels
                          | None \<Rightarrow> map stored_selection (selected_addons b))
                   in case calculatePrice foundItem
                             (int_or (upd_quantity data) (booking_quantity b))
                             (requote_datetime
                                (some_or (upd_booking_date data) (booking_date b))
                                (str_or (upd_start_time data) (booking_start_time b)))
                             addonsForPricing of
                        Inl e \<Rightarrow> Inl e
                      | Inr priceCalculation \<Rightarrow>
                          save ((assign_update b data)
                                  \<lparr>booking_price_breakdown := breakdown_of priceCalculation\<rparr>))
                else save (assign_update b data)))"

section \<open>Reading of the specification's wording\<close>

text \<open>The minute of the day that a time string denotes, read off its digits; the hour
  may be written with one digit or two.\<close>

fun minute_of_day :: "string \<Rightarrow> nat" where
  "minute_of_day [h1, h2, c, m1, m2] =
     (digit_val h1 * 10 + digit_val h2) * 60 + (digit_val m1 * 10 + digit_val m2)"
| "minute_of_day [h2, c, m1, m2] = digit_val h2 * 60 + (digit_val m1 * 10 + digit_val m2)"
| "minute_of_day t = 0"

text \<open>The overlap test of the specification: \<open>[s1,e1)\<close> and \<open>[s2,e2)\<close> overlap iff
  \<open>s1 < e2\<close> and \<open>e1 > s2\<close>.\<close>

definition spec_overlap :: "string \<Rightarrow> string \<Rightarrow> string \<Rightarrow> string \<Rightarrow> bool" where
  "spec_overlap s1 e1 s2 e2 =
     (minute_of_day s1 < minute_of_day e2 \<and> minute_of_day e1 > minute_of_day s2)"

text \<open>A well-formed half-open interval: both ends are \<open>"HH:mm"\<close> strings and the start
  lies before the end.\<close>

definition well_formed_interval :: "string \<Rightarrow> string \<Rightarrow> bool" where
  "well_formed_interval s e =
     (hhmm_time s \<and> hhmm_time e \<and> minute_of_day s < minute_of_day e)"

text \<open>The window test of the specification on minutes of the day: a window whose end lies
  before its start wraps past midnight.\<close>

definition spec_in_window :: "nat \<Rightarrow> nat \<Rightarrow> nat \<Rightarrow> bool" where
  "spec_in_window start end current =
     (if end < start then current \<ge> start \<or> current < end
      else start \<le> current \<and> current < end)"

text \<open>A tier contains a quantity: \<open>minQty \<le> quantity \<le> maxQty\<close>.\<close>

definition tier_contains :: "int \<Rightarrow> tier \<Rightarrow> bool" where
  "tier_contains q t = (min_quantity t \<le> q \<and> q \<le> max_quantity t)"

text \<open>A validated Tiered configuration: accepted by \<open>validatePricingConfig\<close>, every tier
  within the schema.\<close>

definition tiered_valid :: "pricing_config \<Rightarrow> bool" where
  "tiered_valid pc = (config_valid pc \<and> (\<forall>t\<in>set (tiers pc). tier_schema_ok t))"

text \<open>A slot on the given day of the week fully contains the proposed interval:
  \<open>start \<ge> slotStart\<close> and \<open>end \<le> slotEnd\<close>.\<close>

definition slot_contains :: "nat \<Rightarrow> string \<Rightarrow> string \<Rightarrow> availability_slot \<Rightarrow> bool" where
  "slot_contains dayOfWeek s e slot =
     (slot_day slot = dayOfWeek
      \<and> minute_of_day s \<ge> minute_of_day (slot_start_time slot)
      \<and> minute_of_day e \<le> minute_of_day (slot_end_time slot))"

text \<open>The flag \<open>available\<close> of the result of \<open>checkAvailability\<close>.\<close>

definition is_available :: "availability \<Rightarrow> bool" where
  "is_available a = (case a of Available slot \<Rightarrow> True | Unavailable reason \<Rightarrow> False)"









section \<open>Example data\<close>

definition no_pricing :: pricing_config where
  "no_pricing =
     \<lparr>ptype = COMPLIMENTARY, base_price = None, tiers = [], discount = None,
      dynamic_rules = [], default_price = None\<rparr>"

text \<open>A base price of 100 with a discount of 150 percent.\<close>

definition ex_discounted :: pricing_config where
  "ex_discounted =
     no_pricing\<lparr>ptype := DISCOUNTED, base_price := Some 100,
       discount := Some \<lparr>discount_kind = Some PERCENTAGE, discount_value = Some 150\<rparr>\<rparr>"

definition ex_noon :: js_date where
  "ex_noon = Date \<lparr>getDay = 1, getHours = 12, getMinutes = 0\<rparr>"

text \<open>A category taxed at 5 percent, a mandatory single-choice group with one add-on
  priced 20, and an item with a fixed price of 100 that inherits its tax.\<close>

definition ex_category :: category where
  "ex_category =
     \<lparr>cat_id = ''c1'', cat_name = ''Starters'',
      cat_tax_applicable = True, cat_tax_percentage = Some 5\<rparr>"

definition ex_addon :: addon where
  "ex_addon =
     \<lparr>addon_id = ''a1'', addon_name = ''Sauce'', addon_price = 20, addon_is_active = True\<rparr>"

definition ex_group :: addon_group where
  "ex_group =
     \<lparr>group_id = ''g1'', group_name = ''Choose your sauce'', group_type = MANDATORY,
      min_selections = 1, max_selections = 1, addons = [ex_addon]\<rparr>"

definition ex_static_item :: item where
  "ex_static_item =
     \<lparr>item_id = ''i1'', item_name = ''Platter'',
      item_category = Some ex_category, item_subcategory = None,
      item_tax_applicable = None, item_tax_percentage = None,
      pricing = no_pricing\<lparr>ptype := STATIC, base_price := Some 100\<rparr>,
      is_bookable = False, availability_slots = [],
      addon_groups = [ex_group], is_active = True\<rparr>"

text \<open>Bookings of one item on one date.\<close>

definition ex_breakdown :: price_breakdown where
  "ex_breakdown =
     \<lparr>pb_base_price = 100, pb_pricing_type = STATIC, pb_pricing_rule_applied = Fixed_Price,
      pb_discount_amount = 0, pb_addons_total = 0, pb_subtotal = 100,
      pb_tax_percentage = 5, pb_tax_amount = 5, pb_final_price = 105\<rparr>"

definition ex_booking :: "object_id \<Rightarrow> string \<Rightarrow> string \<Rightarrow> booking_status \<Rightarrow> booking" where
  "ex_booking i s e st =
     \<lparr>booking_id = i, booking_item = ''i1'', booking_date = 19737,
      booking_start_time = s, booking_end_time = e, booking_quantity = 1,
      selected_addons = [], booking_price_breakdown = ex_breakdown, booking_status = st\<rparr>"

definition ex_store :: "booking list" where
  "ex_store =
     [ex_booking ''b1'' ''09:30'' ''10:30'' CONFIRMED,
      ex_booking ''b2'' ''10:00'' ''11:00'' CONFIRMED,
      ex_booking ''b3'' ''09:00'' ''09:45'' CANCELLED]"





text \<open>The selection of the one add-on of the example group, and the quote of the
  fixed-price item for quantity 2 with it.\<close>

definition ex_selection :: "addon_selection list" where
  "ex_selection = [\<lparr>sel_addon_group = ''g1'', sel_addon_ids = [''a1'']\<rparr>]"

definition ex_static_quote :: quote where
  "ex_static_quote =
     \<lparr>quote_pricing_details =
        \<lparr>pd_pricing_type = STATIC, pd_pricing_rule_applied = Fixed_Price,
         pd_unit_price = 100, pd_quantity = 2, pd_base_price = 200,
         pd_discount_amount = 0\<rparr>,
      addons_details =
        [\<lparr>detail_group_name = ''Choose your sauce'',
          detail_selected_addons = [(''Sauce'', 20)], detail_total_price = 20\<rparr>],
      addons_total = 20, subtotal = 220,
      quote_tax =
        \<lparr>ti_applicable = True, ti_percentage = 5, ti_inherited_from = From_category,
         ti_amount = 11\<rparr>,
      final_price = 231\<rparr>"

text \<open>Subcategories with and without a tax setting of their own; an item that switches
  tax off while a percentage is still stored; an item whose category reference dangles.\<close>

definition ex_sub_taxed :: subcategory where
  "ex_sub_taxed =
     \<lparr>sub_id = ''s1'', sub_name = ''Soups'', sub_tax_applicable = Some True,
      sub_tax_percentage = Some 12, sub_category = Some ex_category\<rparr>"

definition ex_sub_inherit :: subcategory where
  "ex_sub_inherit =
     \<lparr>sub_id = ''s2'', sub_name = ''Salads'', sub_tax_applicable = None,
      sub_tax_percentage = None, sub_category = Some ex_category\<rparr>"

definition ex_item_untaxed :: item where
  "ex_item_untaxed =
     ex_static_item\<lparr>item_tax_applicable := Some False, item_tax_percentage := Some 18\<rparr>"

definition ex_item_orphan :: item where
  "ex_item_orphan = ex_static_item\<lparr>item_category := None\<rparr>"

text \<open>A rule for every day with the overnight window 22:00 to 02:00.\<close>

definition ex_night_rule :: dynamic_rule where
  "ex_night_rule =
     \<lparr>rule_name = ''Night'', rule_days = Some [], rule_start_time = ''22:00'',
      rule_end_time = ''02:00'', rule_price = 150, rule_priority = 1\<rparr>"

definition ex_instant :: "nat \<Rightarrow> nat \<Rightarrow> nat \<Rightarrow> instant" where
  "ex_instant d h m = \<lparr>getDay = d, getHours = h, getMinutes = m\<rparr>"

text \<open>Three tiers, stored out of order, and a Tiered configuration without tiers.\<close>

definition ex_tier :: "int \<Rightarrow> int \<Rightarrow> rat \<Rightarrow> tier" where
  "ex_tier lo hi p = \<lparr>min_quantity = lo, max_quantity = hi, tier_price = p\<rparr>"

definition ex_tiered :: pricing_config where
  "ex_tiered =
     no_pricing\<lparr>ptype := TIERED,
       tiers := [ex_tier 11 20 6, ex_tier 1 5 10, ex_tier 6 10 8],
       default_price := Some 12\<rparr>"

definition ex_tierless :: pricing_config where
  "ex_tierless = no_pricing\<lparr>ptype := TIERED, default_price := Some 12\<rparr>"

text \<open>A slot on Mondays from 09:00 to 18:00 and a bookable item that declares it; day
  19737 is Monday 2024-01-15.\<close>

definition ex_slot :: availability_slot where
  "ex_slot =
     \<lparr>slot_day = 1, slot_start_time = ''09:00'', slot_end_time = ''18:00'', max_bookings = 5\<rparr>"

definition ex_bookable_item :: item where
  "ex_bookable_item = ex_static_item\<lparr>is_bookable := True, availability_slots := [ex_slot]\<rparr>"

text \<open>An item with Dynamic pricing, 150 from 18:00 to 22:00 and 100 otherwise; a booking
  of it at 10:00 with the breakdown of that morning's quote; requests that move a booking
  to 18:00 and that raise its quantity to 3; the bookings that result.\<close>

definition no_update :: booking_update where
  "no_update =
     \<lparr>upd_booking_date = None, upd_start_time = None, upd_end_time = None,
      upd_quantity = None, upd_selected_addons = None, upd_status = None\<rparr>"

definition ex_evening_rule :: dynamic_rule where
  "ex_evening_rule =
     \<lparr>rule_name = ''Evening'', rule_days = None, rule_start_time = ''18:00'',
      rule_end_time = ''22:00'', rule_price = 150, rule_priority = 1\<rparr>"

definition ex_dynamic_item :: item where
  "ex_dynamic_item =
     ex_static_item\<lparr>pricing :=
         no_pricing\<lparr>ptype := DYNAMIC, dynamic_rules := [ex_evening_rule],
           default_price := Some 100\<rparr>,
       is_bookable := True, addon_groups := []\<rparr>"

definition ex_dynamic_quote :: "rule_label \<Rightarrow> rat \<Rightarrow> int \<Rightarrow> rat \<Rightarrow> rat \<Rightarrow> quote" where
  "ex_dynamic_quote label p n t f =
     \<lparr>quote_pricing_details =
        \<lparr>pd_pricing_type = DYNAMIC, pd_pricing_rule_applied = label,
         pd_unit_price = p, pd_quantity = n, pd_base_price = p * of_int n,
         pd_discount_amount = 0\<rparr>,
      addons_details = [], addons_total = 0, subtotal = p * of_int n,
      quote_tax =
        \<lparr>ti_applicable = True, ti_percentage = 5, ti_inherited_from = From_category,
         ti_amount = t\<rparr>,
      final_price = f\<rparr>"

definition ex_morning_quote :: quote where
  "ex_morning_quote = ex_dynamic_quote Default_Price 100 1 5 105"

definition ex_evening_quote :: quote where
  "ex_evening_quote =
     ex_dynamic_quote (Rule_Name ''Evening'') 150 1 (15 / 2) (315 / 2)"

definition ex_tripled_quote :: quote where
  "ex_tripled_quote = ex_dynamic_quote Default_Price 100 3 15 315"

definition ex_quantity_update :: booking_update where
  "ex_quantity_update = no_update\<lparr>upd_quantity := Some 3\<rparr>"

definition ex_morning_booking :: booking where
  "ex_morning_booking =
     (ex_booking ''b9'' ''10:00'' ''11:00'' CONFIRMED)
       \<lparr>booking_price_breakdown := breakdown_of ex_morning_quote\<rparr>"


definition ex_evening_booking :: booking where
  "ex_evening_booking =
     ex_morning_booking\<lparr>booking_start_time := ''18:00'', booking_end_time := ''19:00''\<rparr>"

definition ex_evening_tripled_booking :: booking where
  "ex_evening_tripled_booking =
     ex_evening_booking\<lparr>booking_quantity := 3,
       booking_price_breakdown := breakdown_of ex_tripled_quote\<rparr>"

text \<open>A booking of the fixed-price item for quantity 1 without add-ons, the quote of that
  item for quantity 3, and the booking with its quantity raised to 3.\<close>

definition ex_static_booking :: booking where
  "ex_static_booking = ex_booking ''b1'' ''09:30'' ''10:30'' CONFIRMED"



text \<open>A request that names the add-on of the example group.\<close>

definition ex_addon_update :: booking_update where
  "ex_addon_update = no_update\<lparr>upd_selected_addons := Some ex_selection\<rparr>"

section \<open>Facts about times of day\<close>

lemma is_digit_iff: "is_digit c \<longleftrightarrow> 48 \<le> (of_char c :: nat) \<and> (of_char c :: nat) \<le> 57"
  by (simp add: is_digit_def less_eq_char_def)

lemma is_digit_not_colon: "is_digit c \<Longrightarrow> c \<noteq> CHR '':''"
  by (auto simp: is_digit_iff)

lemma valid_time5_digits:
  assumes "valid_time [h1, h2, c, m1, m2]"
  shows "is_digit h1" "is_digit h2" "c = CHR '':''" "is_digit m1" "is_digit m2"
    "digit_val h1 * 10 + digit_val h2 < 24" "digit_val m1 * 10 + digit_val m2 < 60"
  using assms by (auto simp: is_digit_iff less_eq_char_def digit_val_def)

lemma valid_time4_digits:
  assumes "valid_time [h2, c, m1, m2]"
  shows "is_digit h2" "c = CHR '':''" "is_digit m1" "is_digit m2"
     "digit_val m1 * 10 + digit_val m2 < 60"
  using assms by (auto simp: is_digit_iff less_eq_char_def digit_val_def)

lemma toMinutes5:
  assumes "is_digit h1" "is_digit h2" "is_digit m1" "is_digit m2"
  shows "toMinutes [h1, h2, CHR '':'', m1, m2] =
     Some ((digit_val h1 * 10 + digit_val h2) * 60 + (digit_val m1 * 10 + digit_val m2))"
  using assms by (simp add: toMinutes_def Number_str_def is_digit_not_colon)

lemma toMinutes4:
  assumes "is_digit h2" "is_digit m1" "is_digit m2"
  shows "toMinutes [h2, CHR '':'', m1, m2] =
     Some (digit_val h2 * 60 + (digit_val m1 * 10 + digit_val m2))"
  using assms by (simp add: toMinutes_def Number_str_def is_digit_not_colon)

lemma valid_time_toMinutes:
  assumes "valid_time t"
  shows "\<exists>h m. h < 24 \<and> m < 60 \<and> toMinutes t = Some (h * 60 + m)"
  using assms
proof (induction t rule: valid_time.induct)
  case (1 h1 h2 c m1 m2)
  note d = valid_time5_digits[OF 1]
  show ?case using d(6,7) toMinutes5[OF d(1,2,4,5)] d(3) by blast
next
  case (2 h2 c m1 m2)
  note d = valid_time4_digits[OF 2]
  have "digit_val h2 < 24" using d(1) unfolding is_digit_iff digit_val_def by arith
  then show ?case using d(5) toMinutes4[OF d(1,3,4)] d(2) by blast
qed simp_all

lemma digit_val_inj: "is_digit a \<Longrightarrow> is_digit b \<Longrightarrow> (a = b) = (digit_val a = digit_val b)"
proof -
  assume "is_digit a" "is_digit b"
  then have "(digit_val a = digit_val b) = ((of_char a :: nat) = of_char b)"
    unfolding is_digit_iff digit_val_def by arith
  then show ?thesis by (simp add: of_char_eq_iff)
qed

lemma digit_val_less: "is_digit a \<Longrightarrow> is_digit b \<Longrightarrow> (a < b) = (digit_val a < digit_val b)"
  unfolding is_digit_iff digit_val_def less_char_def by arith

lemma digit_val_le9: "is_digit a \<Longrightarrow> digit_val a < 10"
  unfolding is_digit_iff digit_val_def by arith

lemma lex2_arith:
  fixes a b c d k :: nat
  assumes "b < k" "d < k"
  shows "(a < c \<or> a = c \<and> b < d) = (a * k + b < c * k + d)"
proof (cases a c rule: linorder_cases)
  case less
  then have "Suc a \<le> c" by simp
  then have "Suc a * k \<le> c * k" by (rule mult_le_mono1)
  then show ?thesis using less assms by simp
next
  case equal
  then show ?thesis by simp
next
  case greater
  then have "Suc c \<le> a" by simp
  then have "Suc c * k \<le> a * k" by (rule mult_le_mono1)
  then show ?thesis using greater assms by simp
qed

lemma lex2_eq_arith:
  fixes a b c d k :: nat
  assumes "b < k" "d < k"
  shows "(a = c \<and> b = d) = (a * k + b = c * k + d)"
  using lex2_arith[OF assms, of a c] lex2_arith[OF assms(2,1), of c a]
  by (metis less_irrefl_nat linorder_neqE_nat)

lemma lex_less_arith:
  fixes a1 a2 a3 a4 b1 b2 b3 b4 :: nat
  assumes "a2 < 10" "b2 < 10" "a3 * 10 + a4 < 60" "b3 * 10 + b4 < 60" "a4 < 10" "b4 < 10"
  shows "(a1 < b1 \<or> a1 = b1 \<and> (a2 < b2 \<or> a2 = b2 \<and> (a3 < b3 \<or> a3 = b3 \<and> a4 < b4)))
     = ((a1 * 10 + a2) * 60 + (a3 * 10 + a4) < (b1 * 10 + b2) * 60 + (b3 * 10 + b4))"
proof -
  have "(a1 < b1 \<or> a1 = b1 \<and> (a2 < b2 \<or> a2 = b2 \<and> (a3 < b3 \<or> a3 = b3 \<and> a4 < b4)))
     = ((a1 < b1 \<or> a1 = b1 \<and> a2 < b2) \<or> (a1 = b1 \<and> a2 = b2) \<and> (a3 < b3 \<or> a3 = b3 \<and> a4 < b4))"
    by blast
  also have "\<dots> = (a1 * 10 + a2 < b1 * 10 + b2 \<or>
       a1 * 10 + a2 = b1 * 10 + b2 \<and> a3 * 10 + a4 < b3 * 10 + b4)"
    by (simp only: lex2_arith[OF assms(1,2)] lex2_eq_arith[OF assms(1,2)] lex2_arith[OF assms(5,6)])
  also have "\<dots> = ((a1 * 10 + a2) * 60 + (a3 * 10 + a4) < (b1 * 10 + b2) * 60 + (b3 * 10 + b4))"
    by (rule lex2_arith[OF assms(3,4)])
  finally show ?thesis .
qed

lemma hhmm_less5:
  assumes "valid_time [h1, h2, c, m1, m2]" "valid_time [k1, k2, d, n1, n2]"
  shows "([h1, h2, c, m1, m2] < [k1, k2, d, n1, n2]) =
    ((digit_val h1 * 10 + digit_val h2) * 60 + (digit_val m1 * 10 + digit_val m2)
      < (digit_val k1 * 10 + digit_val k2) * 60 + (digit_val n1 * 10 + digit_val n2))"
proof -
  note a = valid_time5_digits[OF assms(1)]
  note b = valid_time5_digits[OF assms(2)]
  have "([h1, h2, c, m1, m2] < [k1, k2, d, n1, n2]) =
     (digit_val h1 < digit_val k1 \<or> digit_val h1 = digit_val k1 \<and>
       (digit_val h2 < digit_val k2 \<or> digit_val h2 = digit_val k2 \<and>
         (digit_val m1 < digit_val n1 \<or> digit_val m1 = digit_val n1 \<and> digit_val m2 < digit_val n2)))"
    using a(1,2,4,5) b(1,2,4,5) a(3) b(3)
    by (simp add: digit_val_less digit_val_inj)
  also have "\<dots> = ((digit_val h1 * 10 + digit_val h2) * 60 + (digit_val m1 * 10 + digit_val m2)
      < (digit_val k1 * 10 + digit_val k2) * 60 + (digit_val n1 * 10 + digit_val n2))"
    by (rule lex_less_arith) (use a b digit_val_le9 in auto)
  finally show ?thesis .
qed

lemma hhmm_less_iff:
  assumes "hhmm_time a" "hhmm_time b" "toMinutes a = Some x" "toMinutes b = Some y"
  shows "(a < b) = (x < y)"
  using assms
proof (induction a rule: hhmm_time.induct)
  case A: (1 h1 h2 c m1 m2)
  from A(2,1,3,4) show ?case
  proof (induction b rule: hhmm_time.induct)
    case B: (1 k1 k2 d n1 n2)
    have va: "valid_time [h1, h2, c, m1, m2]" and vb: "valid_time [k1, k2, d, n1, n2]"
      using B by simp_all
    note a = valid_time5_digits[OF va]
    note b = valid_time5_digits[OF vb]
    have "x = (digit_val h1 * 10 + digit_val h2) * 60 + (digit_val m1 * 10 + digit_val m2)"
      using toMinutes5[OF a(1,2,4,5)] a(3) B(3) by simp
    moreover have "y = (digit_val k1 * 10 + digit_val k2) * 60 + (digit_val n1 * 10 + digit_val n2)"
      using toMinutes5[OF b(1,2,4,5)] b(3) B(4) by simp
    ultimately show ?case using hhmm_less5[OF va vb] by simp
  qed simp_all
qed simp_all

lemma hhmm_le_iff:
  assumes "hhmm_time a" "hhmm_time b" "toMinutes a = Some x" "toMinutes b = Some y"
  shows "(a \<le> b) = (x \<le> y)"
  using hhmm_less_iff[OF assms(2,1,4,3)] by (simp add: not_less [symmetric])

lemma toMinutes_hhmm:
  assumes "hhmm_time t"
  shows "toMinutes t = Some (minute_of_day t)"
  using assms
proof (induction t rule: hhmm_time.induct)
  case (1 h1 h2 c m1 m2)
  then have v: "valid_time [h1, h2, c, m1, m2]" by simp
  note d = valid_time5_digits[OF v]
  show ?case using toMinutes5[OF d(1,2,4,5)] d(3) by simp
qed simp_all

lemma hhmm_less_minutes:
  assumes "hhmm_time a" "hhmm_time b"
  shows "(a < b) = (minute_of_day a < minute_of_day b)"
  using hhmm_less_iff [OF assms toMinutes_hhmm [OF assms(1)] toMinutes_hhmm [OF assms(2)]] .

lemma hhmm_le_minutes:
  assumes "hhmm_time a" "hhmm_time b"
  shows "(a \<le> b) = (minute_of_day a \<le> minute_of_day b)"
  using hhmm_le_iff [OF assms toMinutes_hhmm [OF assms(1)] toMinutes_hhmm [OF assms(2)]] .

lemma toMinutes_valid:
  assumes "valid_time t"
  shows "toMinutes t = Some (minute_of_day t)"
  using assms
proof (induction t rule: valid_time.induct)
  case (1 h1 h2 c m1 m2)
  note d = valid_time5_digits[OF 1]
  show ?case using toMinutes5[OF d(1,2,4,5)] d(3) by simp
next
  case (2 h2 c m1 m2)
  note d = valid_time4_digits[OF 2]
  show ?case using toMinutes4[OF d(1,3,4)] d(2) by simp
qed simp_all

lemma is_digit_digit_char: "k < 10 \<Longrightarrow> is_digit (digit_char k)"
  by (simp add: is_digit_iff digit_char_def)

lemma digit_val_digit_char: "k < 10 \<Longrightarrow> digit_val (digit_char k) = k"
  by (simp add: digit_val_def digit_char_def)

lemma digit_char_0: "digit_char 0 = CHR ''0''"
proof -
  have "(of_char (CHR ''0'') :: nat) = 48" by simp
  then have "char_of (48 :: nat) = char_of (of_char (CHR ''0'') :: nat)" by simp
  then show ?thesis by (simp only: digit_char_def char_of_char add_0_right)
qed

lemma padStart2_digits_of:
  assumes "n < 100"
  shows "padStart2 (digits_of n) = [digit_char (n div 10), digit_char (n mod 10)]"
proof (cases "n < 10")
  case True
  then show ?thesis by (simp add: digits_of.simps [of n] padStart2_def digit_char_0 [symmetric])
next
  case False
  with assms have "n div 10 < 10" by simp
  then have "digits_of (n div 10) = [digit_char (n div 10)]"
    by (simp add: digits_of.simps [of "n div 10"])
  with False show ?thesis by (simp add: digits_of.simps [of n] padStart2_def)
qed

lemma toMinutes_currentTime_of:
  assumes "getHours dt < 24" "getMinutes dt < 60"
  shows "toMinutes (currentTime_of (Date dt)) = Some (getHours dt * 60 + getMinutes dt)"
proof -
  let ?h = "getHours dt" and ?m = "getMinutes dt"
  have h: "?h div 10 < 10" "?h mod 10 < 10" and m: "?m div 10 < 10" "?m mod 10 < 10"
    using assms by simp_all
  have "currentTime_of (Date dt)
      = [digit_char (?h div 10), digit_char (?h mod 10), CHR '':'',
         digit_char (?m div 10), digit_char (?m mod 10)]"
    using assms
    by (simp add: currentTime_of_def Date_getHours_def Date_getMinutes_def String_of_def
          padStart2_digits_of)
  then show ?thesis
    using toMinutes5 [OF is_digit_digit_char [OF h(1)] is_digit_digit_char [OF h(2)]
        is_digit_digit_char [OF m(1)] is_digit_digit_char [OF m(2)]]
    by (simp add: digit_val_digit_char h m)
qed

section \<open>Facts about booking conflicts\<close>

lemma three_cases_overlap:
  fixes x1 y1 x2 y2 :: nat
  assumes "x1 < y1" "x2 < y2"
  shows "(x2 \<le> x1 \<and> y2 > x1 \<or> x2 < y1 \<and> y2 \<ge> y1 \<or> x2 \<ge> x1 \<and> y2 \<le> y1)
       = (x1 < y2 \<and> y1 > x2)"
  using assms by auto

lemma conflict_query_overlap:
  assumes "well_formed_interval s e"
    and "well_formed_interval (booking_start_time b) (booking_end_time b)"
  shows "conflict_query s e b = spec_overlap s e (booking_start_time b) (booking_end_time b)"
proof -
  have hs: "hhmm_time s" and he: "hhmm_time e"
    and hbs: "hhmm_time (booking_start_time b)" and hbe: "hhmm_time (booking_end_time b)"
    using assms by (simp_all add: well_formed_interval_def)
  have lt: "minute_of_day s < minute_of_day e"
    "minute_of_day (booking_start_time b) < minute_of_day (booking_end_time b)"
    using assms by (simp_all add: well_formed_interval_def)
  show ?thesis
    unfolding conflict_query_def spec_overlap_def
    by (simp only: hhmm_less_minutes hhmm_le_minutes hs he hbs hbe
        three_cases_overlap [OF lt])
qed

lemma isTimeOverlapping_overlap:
  assumes "hhmm_time s1" "hhmm_time e1" "hhmm_time s2" "hhmm_time e2"
  shows "isTimeOverlapping s1 e1 s2 e2 = spec_overlap s1 e1 s2 e2"
  using assms
  by (simp add: isTimeOverlapping_def spec_overlap_def toMinutes_hhmm js_lt_def js_gt_def)

section \<open>Facts about availability\<close>

lemma isTimeWithinSlot_valid:
  assumes "valid_time s" "valid_time e" "valid_time ss" "valid_time se"
  shows "isTimeWithinSlot s e ss se
       = (minute_of_day s \<ge> minute_of_day ss \<and> minute_of_day e \<le> minute_of_day se)"
  using assms by (simp add: isTimeWithinSlot_def toMinutes_valid js_ge_def js_le_def)

lemma find_SomeD: "find P xs = Some x \<Longrightarrow> x \<in> set xs \<and> P x"
  by (induction xs) (auto split: if_splits)

section \<open>Facts about the pricing engine\<close>

lemma discount_of_nonneg:
  assumes "discount_schema_ok pc" "0 \<le> totalBase"
  shows "0 \<le> fst (discount_of pc totalBase)"
  using assms
  by (auto simp: discount_of_def discount_schema_ok_def or0_def
           split: option.splits discount_type.splits)


lemma find_rule_find:
  "find_rule rs d t = find (\<lambda>r. rule_matches r d t) rs"
  by (induction rs) simp_all

lemma find_tier_find: "find_tier ts q = find (tier_contains q) ts"
  by (induction ts) (simp_all add: tier_contains_def)

lemma tier_overlaps_tail:
  assumes "tier_overlaps i (a # ts) = []"
  shows "tier_overlaps (i + 1) ts = []"
  using assms by (cases ts) (simp_all split: if_splits)

lemma tier_overlaps_head_below:
  assumes "sorted (map min_quantity (a # ts))" "tier_overlaps i (a # ts) = []" "t \<in> set ts"
  shows "max_quantity a < min_quantity t"
proof (cases ts)
  case Nil
  with assms(3) show ?thesis by simp
next
  case (Cons b bs)
  have "max_quantity a < min_quantity b"
    using assms(2) Cons by (simp split: if_splits)
  moreover have "min_quantity b \<le> min_quantity t"
    using assms(1,3) Cons by auto
  ultimately show ?thesis by simp
qed

lemma find_tier_unique:
  assumes "sorted (map min_quantity ts)" "tier_overlaps i ts = []"
    and "t \<in> set ts" "min_quantity t \<le> q" "q \<le> max_quantity t"
  shows "find_tier ts q = Some t"
  using assms
proof (induction ts arbitrary: i)
  case Nil
  then show ?case by simp
next
  case (Cons a ts)
  show ?case
  proof (cases "t = a")
    case True
    with Cons.prems show ?thesis by simp
  next
    case False
    with Cons.prems(3) have t: "t \<in> set ts" by simp
    have "max_quantity a < min_quantity t"
      using tier_overlaps_head_below [OF Cons.prems(1,2) t] .
    with Cons.prems(4) have "\<not> q \<le> max_quantity a" by simp
    moreover have "find_tier ts q = Some t"
      using Cons.IH [OF _ tier_overlaps_tail [OF Cons.prems(2)] t Cons.prems(4,5)]
        Cons.prems(1) by simp
    ultimately show ?thesis by simp
  qed
qed

lemma sorted_last_max:
  assumes "sorted (map f xs)" "x \<in> set xs"
  shows "f x \<le> f (last xs)"
  using assms
proof (induction xs)
  case Nil
  then show ?case by simp
next
  case (Cons a xs)
  then show ?case by (cases "xs = []") auto
qed

lemma sortedTiers_props:
  "sorted (map min_quantity (sortedTiers pc))" "set (sortedTiers pc) = set (tiers pc)"
  by (simp_all add: sortedTiers_def)

lemma sortedTiers_Nil: "(sortedTiers pc = []) = (tiers pc = [])"
  unfolding sortedTiers_def by (metis length_sort length_0_conv)

section \<open>Facts about the add-on loop of the quote\<close>

lemma find_unknown_group:
  assumes "i \<notin> group_id ` set gs"
  shows "find (\<lambda>g. group_id g = i) gs = None"
  using assms by (auto simp: find_None_iff)

lemma price_addons_skip:
  assumes "sel_addon_group sel \<notin> group_id ` set gs"
  shows "price_addons gs (sels1 @ sel # sels2) tot dets
       = price_addons gs (sels1 @ sels2) tot dets"
proof (induction sels1 arbitrary: tot dets)
  case Nil
  show ?case using find_unknown_group [OF assms] by simp
next
  case (Cons s sels1)
  show ?case
    by (simp add: Cons.IH Let_def split: option.splits validation.splits)
qed

lemma find_without:
  assumes "\<not> P y"
  shows "find P (xs @ y # ys) = find P (xs @ ys)"
  using assms by (induction xs) simp_all

lemma price_addons_unreferenced:
  assumes "\<forall>s\<in>set sels. sel_addon_group s \<noteq> group_id g"
  shows "price_addons (gs1 @ g # gs2) sels tot dets
       = price_addons (gs1 @ gs2) sels tot dets"
  using assms
proof (induction sels arbitrary: tot dets)
  case Nil
  show ?case by simp
next
  case (Cons s sels)
  then have n: "\<not> (group_id g = sel_addon_group s)" by auto
  have f: "find (\<lambda>g. group_id g = sel_addon_group s) (gs1 @ g # gs2)
         = find (\<lambda>g. group_id g = sel_addon_group s) (gs1 @ gs2)"
    using n by (rule find_without)
  show ?case
    using Cons by (simp add: f Let_def split: option.splits validation.splits)
qed

lemma getEffectiveTax_addon_groups:
  "getEffectiveTax (it\<lparr>addon_groups := gs\<rparr>) = getEffectiveTax it"
  by (simp add: getEffectiveTax_def item_category_tax_def split: option.splits)

section \<open>Facts about booking updates\<close>




section \<open>Facts about double-precision numbers\<close>

text \<open>\<open>ilog2\<close> is the binary exponent; \<open>fl x\<close> lies within half a unit in the last place
  of \<open>x\<close>; a double is left as it is, so that \<open>fl\<close> is idempotent.\<close>

lemma pow2_powi: "pow2 e = 2 powi e"
  by (simp add: pow2_def power_int_def power_one_over inverse_eq_divide)

lemma pow2_pos: "0 < pow2 e"
  by (simp add: pow2_powi)

lemma pow2_add: "pow2 (a + b) = pow2 a * pow2 b"
  by (simp add: pow2_powi power_int_add)

lemma pow2_mono: "a \<le> b \<Longrightarrow> pow2 a \<le> pow2 b"
  by (simp add: pow2_powi power_int_increasing)

lemma pow2_nat: "pow2 (int n) = 2 ^ n"
  by (simp add: pow2_def)

lemma bitlen_pow2_bounds:
  assumes "0 < p"
  shows "pow2 (bitlen p - 1) \<le> of_int p" and "of_int p < pow2 (bitlen p)"
proof -
  from assms have b: "1 \<le> bitlen p"
    using bitlen_eq_zero_iff [of p] bitlen_nonneg [of p] by linarith
  from bitlen_bounds [OF assms]
  have l: "(2::int) ^ nat (bitlen p - 1) \<le> p" and u: "p < 2 ^ nat (bitlen p)" by simp_all
  from l have "(of_int ((2::int) ^ nat (bitlen p - 1)) :: rat) \<le> of_int p"
    by (simp only: of_int_le_iff)
  then show "pow2 (bitlen p - 1) \<le> of_int p" using b by (simp add: pow2_def)
  from u have "(of_int p :: rat) < of_int ((2::int) ^ nat (bitlen p))"
    by (simp only: of_int_less_iff)
  then show "of_int p < pow2 (bitlen p)" using b by (simp add: pow2_def)
qed

lemma ilog2_bounds:
  assumes "0 < x"
  shows "pow2 (ilog2 x) \<le> x" and "x < pow2 (ilog2 x + 1)"
proof -
  obtain p q where pq: "quotient_of x = (p, q)" by force
  have q: "0 < q" using quotient_of_denom_pos [OF pq] .
  have x: "x = of_int p / of_int q" using quotient_of_div [OF pq] .
  have p: "0 < p" using assms q unfolding x by (simp add: zero_less_divide_iff)
  let ?d = "bitlen p - bitlen q"
  note bp = bitlen_pow2_bounds [OF p] and bq = bitlen_pow2_bounds [OF q]
  have qpos: "(0::rat) < of_int q" using q by simp
  have up: "x < pow2 (?d + 1)"
  proof -
    have "of_int p < pow2 (bitlen p)" by (rule bp(2))
    also have "pow2 (bitlen p) = pow2 (?d + 1) * pow2 (bitlen q - 1)"
      by (simp add: pow2_add [symmetric])
    also have "\<dots> \<le> pow2 (?d + 1) * of_int q"
      using bq(1) pow2_pos [of "?d + 1"] by (simp add: mult_left_mono)
    finally show ?thesis unfolding x using qpos by (simp add: pos_divide_less_eq)
  qed
  have lo: "pow2 (?d - 1) \<le> x"
  proof -
    have "pow2 (?d - 1) * of_int q \<le> pow2 (?d - 1) * pow2 (bitlen q)"
      using bq(2) pow2_pos [of "?d - 1"] by (simp add: mult_left_mono)
    also have "\<dots> = pow2 (bitlen p - 1)" by (simp add: pow2_add [symmetric])
    also have "\<dots> \<le> of_int p" by (rule bp(1))
    finally show ?thesis unfolding x using qpos by (simp add: pos_le_divide_eq)
  qed
  show "pow2 (ilog2 x) \<le> x"
    using lo by (simp add: ilog2_def pq Let_def)
  show "x < pow2 (ilog2 x + 1)"
    using up by (auto simp: ilog2_def pq Let_def not_le)
qed

lemma round_half_even_nearest: "\<bar>of_int (round_half_even y) - y\<bar> \<le> 1 / 2"
proof -
  have "of_int \<lfloor>y\<rfloor> \<le> y" "y < of_int \<lfloor>y\<rfloor> + 1" by linarith+
  then show ?thesis by (auto simp: round_half_even_def Let_def)
qed

lemma fl_nearest:
  "\<bar>fl x - x\<bar> \<le> pow2 (max (ilog2 \<bar>x\<bar>) (- 1022) - 52) / 2"
proof (cases "x = 0")
  case True
  then show ?thesis using pow2_pos [of "max (ilog2 \<bar>x\<bar>) (- 1022) - 52"] by (simp add: fl_def)
next
  case False
  let ?u = "pow2 (max (ilog2 \<bar>x\<bar>) (- 1022) - 52)"
  have u: "0 < ?u" by (rule pow2_pos)
  have "fl x - x = (of_int (round_half_even (x / ?u)) - x / ?u) * ?u"
    using False u by (simp add: fl_def Let_def algebra_simps)
  then have "\<bar>fl x - x\<bar> = \<bar>of_int (round_half_even (x / ?u)) - x / ?u\<bar> * ?u"
    using u by (simp add: abs_mult)
  also have "\<dots> \<le> 1 / 2 * ?u"
    using round_half_even_nearest [of "x / ?u"] u by (simp add: mult_right_mono)
  finally show ?thesis by simp
qed


lemma round_half_even_of_int: "round_half_even (of_int k) = k"
  by (simp add: round_half_even_def Let_def)

lemma pow2_less_cancel: "pow2 a < pow2 b \<Longrightarrow> a < b"
  using pow2_mono [of b a] by (cases "a < b") simp_all

lemma pow2_diff_int:
  assumes "a \<le> b"
  shows "pow2 b / pow2 a = of_int (2 ^ nat (b - a))"
proof -
  have n: "pow2 (b - a) = 2 ^ nat (b - a)" using assms by (simp add: pow2_def)
  have "pow2 b = pow2 (b - a) * pow2 a" by (simp add: pow2_add [symmetric])
  then show ?thesis using pow2_pos [of a] by (simp add: n)
qed

text \<open>A double is a multiple \<open>m * pow2 e\<close> with a mantissa below \<open>2 ^ 53\<close> and an exponent of
  at least -1074; \<open>fl\<close> leaves it as it is.\<close>

lemma fl_fixed:
  assumes "\<bar>m\<bar> < 2 ^ 53" and "- 1074 \<le> e"
  shows "fl (of_int m * pow2 e) = of_int m * pow2 e"
proof (cases "m = 0")
  case True
  then show ?thesis by (simp add: fl_def)
next
  case False
  let ?x = "of_int m * pow2 e"
  let ?E = "max (ilog2 \<bar>?x\<bar>) (- 1022) - 52"
  have pos: "0 < \<bar>?x\<bar>" using False pow2_pos [of e] by simp
  have "\<bar>?x\<bar> = of_int \<bar>m\<bar> * pow2 e" using pow2_pos [of e] by (simp add: abs_mult)
  also have "\<dots> < of_int (2 ^ 53) * pow2 e"
    using assms(1) pow2_pos [of e] by (intro mult_strict_right_mono) (simp_all only: of_int_less_iff)
  also have "\<dots> = pow2 (53 + e)"
  proof -
    have "pow2 53 = of_int (2 ^ 53)" by (simp add: pow2_def)
    then show ?thesis by (simp only: pow2_add)
  qed
  finally have "pow2 (ilog2 \<bar>?x\<bar>) < pow2 (53 + e)"
    using ilog2_bounds(1) [OF pos] by simp
  then have "ilog2 \<bar>?x\<bar> < 53 + e" by (rule pow2_less_cancel)
  with assms(2) have le: "?E \<le> e" by simp
  have "?x / pow2 ?E = of_int m * (pow2 e / pow2 ?E)" by simp
  also have "\<dots> = of_int (m * 2 ^ nat (e - ?E))"
    by (simp only: pow2_diff_int [OF le] of_int_mult)
  finally have "round_half_even (?x / pow2 ?E) = m * 2 ^ nat (e - ?E)"
    by (simp only: round_half_even_of_int)
  then have "of_int (round_half_even (?x / pow2 ?E)) * pow2 ?E
      = of_int m * (of_int (2 ^ nat (e - ?E)) * pow2 ?E)"
    by simp
  also have "of_int (2 ^ nat (e - ?E)) * pow2 ?E = pow2 e"
    using pow2_diff_int [OF le] pow2_pos [of ?E] by (simp add: field_simps)
  finally show ?thesis using pos by (simp add: fl_def Let_def)
qed

lemma fl_of_int:
  assumes "\<bar>n\<bar> < 2 ^ 53"
  shows "fl (of_int n) = of_int n"
  using fl_fixed [OF assms, of 0] by (simp add: pow2_def)


lemma round_half_even_bound:
  assumes "\<bar>y\<bar> < of_int N"
  shows "\<bar>round_half_even y\<bar> \<le> N"
proof -
  have "- of_int N < y" "y < of_int N" using assms by linarith+
  then have "- N \<le> \<lfloor>y\<rfloor>" "\<lfloor>y\<rfloor> < N" by (simp_all add: le_floor_iff floor_less_iff)
  then show ?thesis by (auto simp: round_half_even_def Let_def)
qed

lemma pow2_succ: "pow2 (e + 1) = 2 * pow2 e"
proof -
  have "pow2 1 = 2" by (simp add: pow2_def)
  then show ?thesis by (simp only: pow2_add mult.commute)
qed

lemma fl_idem: "fl (fl x) = fl x"
proof (cases "x = 0")
  case True
  then show ?thesis by (simp add: fl_def)
next
  case False
  let ?E = "max (ilog2 \<bar>x\<bar>) (- 1022) - 52"
  let ?m = "round_half_even (x / pow2 ?E)"
  have flx: "fl x = of_int ?m * pow2 ?E" using False by (simp add: fl_def Let_def)
  have pos: "0 < \<bar>x\<bar>" using False by simp
  have p53: "pow2 53 = of_int (2 ^ 53)" by (simp add: pow2_def)
  have "\<bar>x\<bar> < pow2 (ilog2 \<bar>x\<bar> + 1)" by (rule ilog2_bounds(2) [OF pos])
  also have "\<dots> \<le> pow2 (53 + ?E)" by (rule pow2_mono) simp
  also have "\<dots> = of_int (2 ^ 53) * pow2 ?E" by (simp only: pow2_add p53)
  finally have "\<bar>x / pow2 ?E\<bar> < of_int (2 ^ 53)"
    using pow2_pos [of ?E] by (simp add: pos_divide_less_eq)
  then have m: "\<bar>?m\<bar> \<le> 2 ^ 53" by (rule round_half_even_bound)
  have E: "- 1074 \<le> ?E" "- 1074 \<le> ?E + 1" by simp_all
  show ?thesis
  proof (cases "\<bar>?m\<bar> < 2 ^ 53")
    case True
    show ?thesis unfolding flx by (rule fl_fixed [OF True E(1)])
  next
    case False
    with m have "?m = 2 ^ 53 \<or> ?m = - (2 ^ 53)" by linarith
    then show ?thesis
    proof
      assume "?m = 2 ^ 53"
      then have "fl x = of_int (2 ^ 52) * pow2 (?E + 1)"
        unfolding flx by (simp only: pow2_succ) simp
      moreover have "\<bar>(2::int) ^ 52\<bar> < 2 ^ 53" by simp
      ultimately show ?thesis using fl_fixed [OF _ E(2), of "2 ^ 52"] by simp
    next
      assume "?m = - (2 ^ 53)"
      then have "fl x = of_int (- (2 ^ 52)) * pow2 (?E + 1)"
        unfolding flx by (simp only: pow2_succ) simp
      moreover have "\<bar>- ((2::int) ^ 52)\<bar> < 2 ^ 53" by simp
      ultimately show ?thesis using fl_fixed [OF _ E(2), of "- (2 ^ 52)"] by simp
    qed
  qed
qed

section \<open>Facts about the tax step\<close>


text \<open>The operations of \<open>calculateTax\<close> one after the other.\<close>

lemma calculateTax_steps:
  assumes "fl amount = a" and "fl pct = p" and "fl (a * p) = m" and "fl (m / 100) = t"
    and "fl (t * 100) = c" and "\<lfloor>c + 1 / 2\<rfloor> = k"
    and "fl (a + t) = s" and "fl (s * 100) = d" and "\<lfloor>d + 1 / 2\<rfloor> = n"
  shows "tax_amount (calculateTax amount pct) = fl (of_int k / 100)"
    and "total_with_tax (calculateTax amount pct) = fl (of_int n / 100)"
  using assms by (simp_all add: calculateTax_def round2_def Math_round_def Let_def)

lemma calculateTax_220_5:
  "tax_amount (calculateTax 220 5) = 11"
  "total_with_tax (calculateTax 220 5) = 231"
proof -
  have a: "fl 220 = 220" by code_simp
  have p: "fl 5 = 5" by code_simp
  have m: "fl (220 * 5) = 1100" by code_simp
  have t: "fl (1100 / 100) = 11" by code_simp
  have c: "fl (11 * 100) = 1100" by code_simp
  have k: "\<lfloor>(1100 :: rat) + 1 / 2\<rfloor> = 1100" by (simp add: floor_eq_iff)
  have s: "fl (220 + 11) = 231" by code_simp
  have d: "fl (231 * 100) = 23100" by code_simp
  have n: "\<lfloor>(23100 :: rat) + 1 / 2\<rfloor> = 23100" by (simp add: floor_eq_iff)
  have r: "fl (1100 / 100) = 11" "fl (23100 / 100) = 231" by code_simp+
  from calculateTax_steps [OF a p m t c k s d n] r
  show "tax_amount (calculateTax 220 5) = 11"
    "total_with_tax (calculateTax 220 5) = 231"
    by simp_all
qed

lemma calculateTax_300_5:
  "tax_amount (calculateTax 300 5) = 15"
  "total_with_tax (calculateTax 300 5) = 315"
proof -
  have a: "fl 300 = 300" by code_simp
  have p: "fl 5 = 5" by code_simp
  have m: "fl (300 * 5) = 1500" by code_simp
  have t: "fl (1500 / 100) = 15" by code_simp
  have c: "fl (15 * 100) = 1500" by code_simp
  have k: "\<lfloor>(1500 :: rat) + 1 / 2\<rfloor> = 1500" by (simp add: floor_eq_iff)
  have s: "fl (300 + 15) = 315" by code_simp
  have d: "fl (315 * 100) = 31500" by code_simp
  have n: "\<lfloor>(31500 :: rat) + 1 / 2\<rfloor> = 31500" by (simp add: floor_eq_iff)
  have r: "fl (1500 / 100) = 15" "fl (31500 / 100) = 315" by code_simp+
  from calculateTax_steps [OF a p m t c k s d n] r
  show "tax_amount (calculateTax 300 5) = 15"
    "total_with_tax (calculateTax 300 5) = 315"
    by simp_all
qed

lemma calculateTax_100_5:
  "tax_amount (calculateTax 100 5) = 5"
  "total_with_tax (calculateTax 100 5) = 105"
proof -
  have a: "fl 100 = 100" by code_simp
  have p: "fl 5 = 5" by code_simp
  have m: "fl (100 * 5) = 500" by code_simp
  have t: "fl (500 / 100) = 5" by code_simp
  have c: "fl (5 * 100) = 500" by code_simp
  have k: "\<lfloor>(500 :: rat) + 1 / 2\<rfloor> = 500" by (simp add: floor_eq_iff)
  have s: "fl (100 + 5) = 105" by code_simp
  have d: "fl (105 * 100) = 10500" by code_simp
  have n: "\<lfloor>(10500 :: rat) + 1 / 2\<rfloor> = 10500" by (simp add: floor_eq_iff)
  have r: "fl (500 / 100) = 5" "fl (10500 / 100) = 105" by code_simp+
  from calculateTax_steps [OF a p m t c k s d n] r
  show "tax_amount (calculateTax 100 5) = 5"
    "total_with_tax (calculateTax 100 5) = 105"
    by simp_all
qed

lemma calculateTax_150_5:
  "tax_amount (calculateTax 150 5) = 15 / 2"
  "total_with_tax (calculateTax 150 5) = 315 / 2"
proof -
  have a: "fl 150 = 150" by code_simp
  have p: "fl 5 = 5" by code_simp
  have m: "fl (150 * 5) = 750" by code_simp
  have t: "fl (750 / 100) = 15 / 2" by code_simp
  have c: "fl (15 / 2 * 100) = 750" by code_simp
  have k: "\<lfloor>(750 :: rat) + 1 / 2\<rfloor> = 750" by (simp add: floor_eq_iff)
  have s: "fl (150 + 15 / 2) = 315 / 2" by code_simp
  have d: "fl (315 / 2 * 100) = 15750" by code_simp
  have n: "\<lfloor>(15750 :: rat) + 1 / 2\<rfloor> = 15750" by (simp add: floor_eq_iff)
  have r: "fl (750 / 100) = 15 / 2" "fl (15750 / 100) = 315 / 2" by code_simp+
  from calculateTax_steps [OF a p m t c k s d n] r
  show "tax_amount (calculateTax 150 5) = 15 / 2"
    "total_with_tax (calculateTax 150 5) = 315 / 2"
    by simp_all
qed




section \<open>Facts about the amounts before the tax step\<close>









section \<open>Facts about re-quotes\<close>

text \<open>For \<open>Invalid Date\<close> the current time is \<open>NaN\<close> and no rule matches.\<close>

lemma toMinutes_Invalid_Date: "toMinutes (currentTime_of Invalid_Date) = None"
  by (simp add: currentTime_of_def Date_getHours_def Date_getMinutes_def String_of_def
        padStart2_def toMinutes_def Number_str_def is_digit_def)

lemma rule_matches_Invalid_Date: "\<not> rule_matches r d (currentTime_of Invalid_Date)"
  by (simp add: rule_matches_def isTimeInRange_def toMinutes_Invalid_Date
        js_lt_def js_le_def js_ge_def Let_def split: option.splits)

lemma find_rule_Invalid_Date: "find_rule rs d (currentTime_of Invalid_Date) = None"
  by (induction rs) (simp_all add: rule_matches_Invalid_Date)


section \<open>The quotes of the examples\<close>



lemma ex_static_quote_eval:
  "calculatePrice (Some ex_static_item) 2 ex_noon ex_selection = Inr ex_static_quote"
  using calculateTax_220_5
  by (simp add: calculatePrice_def ex_static_item_def no_pricing_def ex_selection_def
        ex_category_def ex_group_def ex_addon_def
        PricingEngine_calculatePrice_def calculateStaticPrice_def
        validateSelections_def calculateSelectedPrice_def
        or0_def getEffectiveTax_def item_category_tax_def category_tax_def
        ex_static_quote_def Let_def)


lemma ex_tiered_sorted:
  "sortedTiers ex_tiered = [ex_tier 1 5 10, ex_tier 6 10 8, ex_tier 11 20 6]"
  by (simp add: sortedTiers_def ex_tiered_def no_pricing_def ex_tier_def)

lemma ex_instant_sel:
  "getDay (ex_instant d h m) = d" "getHours (ex_instant d h m) = h"
  "getMinutes (ex_instant d h m) = m"
  by (simp_all add: ex_instant_def)

lemma ex_evening_rule_matches:
  "\<not> rule_matches ex_evening_rule d (currentTime_of (Date (ex_instant n 10 0)))"
  "rule_matches ex_evening_rule d (currentTime_of (Date (ex_instant n 18 0)))"
proof -
  have s: "toMinutes (rule_start_time ex_evening_rule) = Some 1080"
    "toMinutes (rule_end_time ex_evening_rule) = Some 1320"
    by (simp_all add: ex_evening_rule_def toMinutes_def Number_str_def is_digit_def
          digit_val_def)
  have c: "toMinutes (currentTime_of (Date (ex_instant n 10 0))) = Some 600"
    "toMinutes (currentTime_of (Date (ex_instant n 18 0))) = Some 1080"
    using toMinutes_currentTime_of [of "ex_instant n 10 0"]
      toMinutes_currentTime_of [of "ex_instant n 18 0"]
    by (simp_all add: ex_instant_sel)
  have d: "isDayMatch ex_evening_rule d"
    by (simp add: isDayMatch_def ex_evening_rule_def)
  show "\<not> rule_matches ex_evening_rule d (currentTime_of (Date (ex_instant n 10 0)))"
    "rule_matches ex_evening_rule d (currentTime_of (Date (ex_instant n 18 0)))"
    by (simp_all add: rule_matches_def d isTimeInRange_def s c js_lt_def js_le_def js_ge_def)
qed


lemma ex_dynamic_quotes:
  "calculatePrice (Some ex_dynamic_item) 1 (Date (ex_instant 1 10 0)) [] = Inr ex_morning_quote"
  "calculatePrice (Some ex_dynamic_item) 1 (Date (ex_instant 1 18 0)) [] = Inr ex_evening_quote"
  "calculatePrice (Some ex_dynamic_item) 3 Invalid_Date [] = Inr ex_tripled_quote"
  using calculateTax_100_5 calculateTax_150_5 calculateTax_300_5
  by (simp_all add: calculatePrice_def ex_dynamic_item_def ex_static_item_def
        no_pricing_def ex_category_def PricingEngine_calculatePrice_def
        calculateDynamicPrice_def sortedRules_def ex_evening_rule_matches
        rule_matches_Invalid_Date
        or0_def getEffectiveTax_def item_category_tax_def category_tax_def
        ex_morning_quote_def ex_evening_quote_def ex_tripled_quote_def ex_dynamic_quote_def
        Let_def,
      simp_all add: ex_evening_rule_def)

section \<open>The claims\<close>

text \<open>
  C1. An active item with Static pricing, base price 100, no tax setting of its own and
  no subcategory, in a category taxed at 5 percent, with one add-on group whose single
  add-on is active, priced 20 and selected (within the group's bounds), quoted for
  quantity 2: the pricing amount is 200, the add-ons total 20, the subtotal 220, the tax
  amount 11 and the final price 231.
\<close>

theorem C1_static_quote:
  assumes "is_active it"
    and "ptype (pricing it) = STATIC" and "base_price (pricing it) = Some 100"
    and "item_tax_applicable it = None" and "item_subcategory it = None"
    and "item_category it = Some c"
    and "cat_tax_applicable c" and "cat_tax_percentage c = Some 5"
    and "addon_groups it = [g]" and "addons g = [a]"
    and "addon_is_active a" and "addon_price a = 20"
    and "min_selections g \<le> 1" and "1 \<le> max_selections g"
  shows "\<exists>r. calculatePrice (Some it) 2 dt
              [\<lparr>sel_addon_group = group_id g, sel_addon_ids = [addon_id a]\<rparr>] = Inr r
           \<and> pd_base_price (quote_pricing_details r) = 200
           \<and> addons_total r = 20
           \<and> subtotal r = 220
           \<and> ti_percentage (quote_tax r) = 5
           \<and> ti_inherited_from (quote_tax r) = From_category
           \<and> ti_amount (quote_tax r) = 11
           \<and> final_price r = 231"
proof -
  have price: "PricingEngine_calculatePrice (pricing it) 2 dt = calculateStaticPrice (pricing it) 2"
    using assms(2) by (simp add: PricingEngine_calculatePrice_def)
  have static: "calculated_price (calculateStaticPrice (pricing it) 2) = 200"
    "res_base_price (calculateStaticPrice (pricing it) 2) = 200"
    using assms(3) by (simp_all add: calculateStaticPrice_def or0_def Let_def)
  have valid: "validateSelections g [addon_id a] = Valid"
    using assms(10,11,13,14) by (simp add: validateSelections_def Let_def)
  have sel: "calculateSelectedPrice g [addon_id a] = 20"
    using assms(10,11,12) by (simp add: calculateSelectedPrice_def)
  have addons: "\<exists>ds. price_addons (addon_groups it)
          [\<lparr>sel_addon_group = group_id g, sel_addon_ids = [addon_id a]\<rparr>] 0 [] = Inr (20, ds)"
    using assms(9) valid sel by (simp add: Let_def)
  have tax: "tax_percentage (getEffectiveTax it) = 5" "inherited_from (getEffectiveTax it) = From_category"
    using assms(4-8)
    by (simp_all add: getEffectiveTax_def item_category_tax_def category_tax_def or0_def)
  from addons obtain ds where ds: "price_addons (addon_groups it)
          [\<lparr>sel_addon_group = group_id g, sel_addon_ids = [addon_id a]\<rparr>] 0 [] = Inr (20, ds)"
    by blast
  show ?thesis
    using assms(1) calculateTax_220_5
    by (simp add: calculatePrice_def price static ds tax Let_def del: price_addons.simps)
qed

theorem C1_static_quote_witness:
  "is_active ex_static_item
   \<and> ptype (pricing ex_static_item) = STATIC
   \<and> base_price (pricing ex_static_item) = Some 100
   \<and> item_tax_applicable ex_static_item = None
   \<and> item_subcategory ex_static_item = None
   \<and> item_category ex_static_item = Some ex_category
   \<and> cat_tax_applicable ex_category \<and> cat_tax_percentage ex_category = Some 5
   \<and> addon_groups ex_static_item = [ex_group] \<and> addons ex_group = [ex_addon]
   \<and> addon_is_active ex_addon \<and> addon_price ex_addon = 20
   \<and> min_selections ex_group \<le> 1 \<and> 1 \<le> max_selections ex_group
   \<and> (\<exists>r. calculatePrice (Some ex_static_item) 2 ex_noon
              [\<lparr>sel_addon_group = ''g1'', sel_addon_ids = [''a1'']\<rparr>] = Inr r
           \<and> pd_base_price (quote_pricing_details r) = 200
           \<and> addons_total r = 20
           \<and> subtotal r = 220
           \<and> ti_percentage (quote_tax r) = 5
           \<and> ti_inherited_from (quote_tax r) = From_category
           \<and> ti_amount (quote_tax r) = 11
           \<and> final_price r = 231)"
proof -
  have h: "is_active ex_static_item"
    "ptype (pricing ex_static_item) = STATIC"
    "base_price (pricing ex_static_item) = Some 100"
    "item_tax_applicable ex_static_item = None"
    "item_subcategory ex_static_item = None"
    "item_category ex_static_item = Some ex_category"
    "cat_tax_applicable ex_category" "cat_tax_percentage ex_category = Some 5"
    "addon_groups ex_static_item = [ex_group]" "addons ex_group = [ex_addon]"
    "addon_is_active ex_addon" "addon_price ex_addon = 20"
    "min_selections ex_group \<le> 1" "1 \<le> max_selections ex_group"
    by (simp_all add: ex_static_item_def ex_category_def ex_group_def ex_addon_def
          no_pricing_def)
  have ids: "group_id ex_group = ''g1''" "addon_id ex_addon = ''a1''"
    by (simp_all add: ex_group_def ex_addon_def)
  show ?thesis
    using C1_static_quote [OF h, of ex_noon] h unfolding ids by simp
qed

text \<open>
  C2. For a well-formed request interval and a collection whose bookings all have
  well-formed intervals (times written \<open>"HH:mm"\<close>, start before end): on every booking the
  three-case query of \<open>findConflicts\<close> and the helper \<open>isTimeOverlapping\<close> both agree
  with the overlap test \<open>s1 < e2 \<and> e1 > s2\<close>, and \<open>findConflicts\<close> returns exactly the
  bookings of the same item and date that are not cancelled and overlap the request.
\<close>

theorem C2_findConflicts_overlap:
  assumes "well_formed_interval startTime endTime"
    and "\<forall>b\<in>set store. well_formed_interval (booking_start_time b) (booking_end_time b)"
  shows "(\<forall>b\<in>set store.
            conflict_query startTime endTime b
            = spec_overlap startTime endTime (booking_start_time b) (booking_end_time b))
       \<and> (\<forall>b\<in>set store.
            isTimeOverlapping startTime endTime (booking_start_time b) (booking_end_time b)
            = spec_overlap startTime endTime (booking_start_time b) (booking_end_time b))
       \<and> findConflicts store itemId d startTime endTime None
         = filter (\<lambda>b. booking_item b = itemId \<and> booking_date b = d
                       \<and> booking_status b \<noteq> CANCELLED
                       \<and> spec_overlap startTime endTime
                            (booking_start_time b) (booking_end_time b))
             store"
proof -
  have q: "\<forall>b\<in>set store.
            conflict_query startTime endTime b
            = spec_overlap startTime endTime (booking_start_time b) (booking_end_time b)"
    using assms conflict_query_overlap by blast
  have o: "\<forall>b\<in>set store.
            isTimeOverlapping startTime endTime (booking_start_time b) (booking_end_time b)
            = spec_overlap startTime endTime (booking_start_time b) (booking_end_time b)"
    using assms by (simp add: well_formed_interval_def isTimeOverlapping_overlap)
  have "findConflicts store itemId d startTime endTime None
         = filter (\<lambda>b. booking_item b = itemId \<and> booking_date b = d
                       \<and> booking_status b \<noteq> CANCELLED
                       \<and> spec_overlap startTime endTime
                            (booking_start_time b) (booking_end_time b))
             store"
    unfolding findConflicts_def
    by (rule filter_cong) (simp_all add: q)
  with q o show ?thesis by blast
qed

theorem C2_findConflicts_overlap_witness:
  "well_formed_interval ''09:00'' ''10:00''
   \<and> well_formed_interval ''09:30'' ''10:30'' \<and> well_formed_interval ''10:00'' ''11:00''
   \<and> well_formed_interval ''09:00'' ''09:45''
   \<and> conflict_query ''09:00'' ''10:00'' (ex_booking ''b1'' ''09:30'' ''10:30'' CONFIRMED)
   \<and> \<not> conflict_query ''09:00'' ''10:00'' (ex_booking ''b2'' ''10:00'' ''11:00'' CONFIRMED)
   \<and> findConflicts ex_store ''i1'' 19737 ''09:00'' ''10:00'' None
       = [ex_booking ''b1'' ''09:30'' ''10:30'' CONFIRMED]"
proof -
  have h1: "well_formed_interval ''09:00'' ''10:00''"
    by (simp add: well_formed_interval_def is_digit_def digit_val_def)
  have h2: "\<forall>b\<in>set ex_store. well_formed_interval (booking_start_time b) (booking_end_time b)"
    by (simp add: ex_store_def ex_booking_def well_formed_interval_def is_digit_def
          digit_val_def)
  have h3: "well_formed_interval ''09:30'' ''10:30''" "well_formed_interval ''10:00'' ''11:00''"
    "well_formed_interval ''09:00'' ''09:45''"
    using h2 by (simp_all add: ex_store_def ex_booking_def)
  show ?thesis
    using C2_findConflicts_overlap [OF h1 h2, of "''i1''" 19737] h1 h3
    by (simp add: ex_store_def ex_booking_def spec_overlap_def digit_val_def)
qed

text \<open>
  Remark. The schemas also admit an hour written with one digit. On such strings
  the string comparison of the store no longer follows the time of day: the stored
  booking 8:00 to 9:00 overlaps the request 08:30 to 10:00, and the query misses it.
\<close>

lemma one_digit_hour_conflict_missed:
  "isTimeOverlapping ''08:30'' ''10:00'' ''8:00'' ''9:00''
   \<and> valid_time ''8:00'' \<and> valid_time ''9:00''
   \<and> \<not> conflict_query ''08:30'' ''10:00'' (ex_booking ''b4'' ''8:00'' ''9:00'' CONFIRMED)"
  by (simp add: isTimeOverlapping_def toMinutes_def Number_str_def is_digit_def digit_val_def
        js_lt_def js_gt_def conflict_query_def ex_booking_def)

text \<open>
  C3. For a Discounted configuration accepted by \<open>validatePricingConfig\<close> whose discount
  value is not negative (as the item schemas require), flat or percentage, of any size,
  and a quantity of at least 1: the base amount of the result is
  \<open>base_price \<times> quantity\<close>, the discount amount lies between 0 and that base amount,
  and so does the calculated price.
\<close>

theorem C3_discount_within_base:
  assumes "ptype pc = DISCOUNTED" and "config_valid pc" and "discount_schema_ok pc"
    and "base_price pc = Some b" and "1 \<le> q"
  shows "res_base_price (PricingEngine_calculatePrice pc q dt) = b * of_int q
       \<and> 0 \<le> discount_amount (PricingEngine_calculatePrice pc q dt)
       \<and> discount_amount (PricingEngine_calculatePrice pc q dt) \<le> b * of_int q
       \<and> 0 \<le> calculated_price (PricingEngine_calculatePrice pc q dt)
       \<and> calculated_price (PricingEngine_calculatePrice pc q dt) \<le> b * of_int q"
proof -
  have b0: "0 \<le> b"
    using assms(1,2,4)
    by (auto simp: config_valid_def validatePricingConfig_def missing_or_negative_def
             split: if_splits)
  have q0: "(0::rat) \<le> of_int q" using assms(5) by simp
  have tb: "0 \<le> b * of_int q" using b0 q0 by (rule mult_nonneg_nonneg)
  have d0: "0 \<le> fst (discount_of pc (b * of_int q))"
    using assms(3) tb by (rule discount_of_nonneg)
  have r: "PricingEngine_calculatePrice pc q dt = calculateDiscountedPrice pc q"
    using assms(1) by (simp add: PricingEngine_calculatePrice_def)
  show ?thesis
    using tb d0 assms(4)
    by (simp add: r calculateDiscountedPrice_def Let_def or0_def min_def)
qed

theorem C3_discount_within_base_witness:
  "ptype ex_discounted = DISCOUNTED \<and> config_valid ex_discounted
   \<and> discount_schema_ok ex_discounted \<and> base_price ex_discounted = Some 100
   \<and> (1::int) \<le> 2
   \<and> discount_amount (PricingEngine_calculatePrice ex_discounted 2 ex_noon) = 200
   \<and> calculated_price (PricingEngine_calculatePrice ex_discounted 2 ex_noon) = 0
   \<and> res_base_price (PricingEngine_calculatePrice ex_discounted 2 ex_noon) = 100 * of_int 2
   \<and> discount_amount (PricingEngine_calculatePrice ex_discounted 2 ex_noon) \<le> 100 * of_int 2"
proof -
  have h1: "ptype ex_discounted = DISCOUNTED"
    by (simp add: ex_discounted_def no_pricing_def)
  have h2: "config_valid ex_discounted"
    by (simp add: config_valid_def validatePricingConfig_def missing_or_negative_def
          ex_discounted_def no_pricing_def)
  have h3: "discount_schema_ok ex_discounted"
    by (simp add: discount_schema_ok_def ex_discounted_def no_pricing_def)
  have h4: "base_price ex_discounted = Some 100"
    by (simp add: ex_discounted_def no_pricing_def)
  have h5: "(1::int) \<le> 2" by simp
  have v: "discount_amount (PricingEngine_calculatePrice ex_discounted 2 ex_noon) = 200
      \<and> calculated_price (PricingEngine_calculatePrice ex_discounted 2 ex_noon) = 0"
    by (simp add: PricingEngine_calculatePrice_def calculateDiscountedPrice_def
          discount_of_def or0_def ex_discounted_def no_pricing_def Let_def)
  show ?thesis
    using C3_discount_within_base [OF h1 h2 h3 h4 h5, of ex_noon] h1 h2 h3 h4 v by simp
qed




text \<open>
  Two properties of \<open>update\<close> that the amended claim leaves aside. The re-quote is
  computed for \<open>Invalid Date\<close>, so under Dynamic pricing no rule applies to it: raising
  the quantity of the booking at 18:00 stores the default price, not that of the evening
  rule. A request that names add-ons is not saved: its selections carry no price, which
  the schema requires.
\<close>

lemma requote_at_Invalid_Date:
  "update [ex_evening_booking] (Some ex_dynamic_item) (Some ex_evening_booking)
     ex_quantity_update = Inr ex_evening_tripled_booking
   \<and> pb_pricing_rule_applied (booking_price_breakdown ex_evening_tripled_booking)
       = Default_Price
   \<and> pb_final_price (booking_price_breakdown ex_evening_tripled_booking) = 315"
  using ex_dynamic_quotes(3)
  by (simp add: update_def ex_quantity_update_def no_update_def requote_datetime_def
        ex_evening_booking_def ex_morning_booking_def ex_booking_def
        truthy_str_def truthy_int_def
        assign_update_def some_or_def str_or_def int_or_def ex_evening_tripled_booking_def
        save_def validators_pass_def breakdown_of_def ex_tripled_quote_def
        ex_dynamic_quote_def Let_def)

lemma addon_update_not_saved:
  "update [ex_static_booking] (Some ex_static_item) (Some ex_static_booking) ex_addon_update
     = Inl Validation_failed"
  using ex_static_quote_eval calculateTax_100_5
  by (simp add: update_def ex_addon_update_def no_update_def
        ex_static_booking_def ex_booking_def truthy_str_def truthy_int_def
        assign_update_def some_or_def str_or_def int_or_def
        calculatePrice_def ex_static_item_def no_pricing_def ex_selection_def
        ex_category_def ex_group_def ex_addon_def
        PricingEngine_calculatePrice_def calculateStaticPrice_def
        validateSelections_def calculateSelectedPrice_def
        or0_def getEffectiveTax_def item_category_tax_def category_tax_def
        requested_selection_def
        save_def validators_pass_def Let_def)




text \<open>
  C6. Tax resolution returns the item's own setting when it is set; otherwise the
  subcategory's setting when that is set; otherwise the setting of the subcategory's
  category, or failing that of the item's own category, each tagged with the kind of the
  entity it came from; and \<open>{applicable: false, percentage: 0, source: default}\<close> when no
  such entity exists. Whenever the result is not applicable its percentage is 0, whatever
  percentage is stored.
\<close>

theorem C6_tax_resolution:
  "(item_tax_applicable it = Some a \<longrightarrow>
      getEffectiveTax it =
        \<lparr>tax_applicable = a,
         tax_percentage = (if a then or0 (item_tax_percentage it) else 0),
         inherited_from = From_item, source_id = Some (item_id it)\<rparr>)
   \<and> (item_tax_applicable it = None \<and> item_subcategory it = Some s
        \<and> sub_tax_applicable s = Some a \<longrightarrow>
      getEffectiveTax it =
        \<lparr>tax_applicable = a,
         tax_percentage = (if a then or0 (sub_tax_percentage s) else 0),
         inherited_from = From_subcategory, source_id = Some (sub_id s)\<rparr>)
   \<and> (item_tax_applicable it = None \<and> item_subcategory it = Some s
        \<and> sub_tax_applicable s = None \<and> sub_category s = Some c \<longrightarrow>
      getEffectiveTax it =
        \<lparr>tax_applicable = cat_tax_applicable c,
         tax_percentage = (if cat_tax_applicable c then or0 (cat_tax_percentage c) else 0),
         inherited_from = From_category, source_id = Some (cat_id c)\<rparr>)
   \<and> (item_tax_applicable it = None
        \<and> (item_subcategory it = None
             \<or> item_subcategory it = Some s \<and> sub_tax_applicable s = None
                \<and> sub_category s = None)
        \<and> item_category it = Some c \<longrightarrow>
      getEffectiveTax it =
        \<lparr>tax_applicable = cat_tax_applicable c,
         tax_percentage = (if cat_tax_applicable c then or0 (cat_tax_percentage c) else 0),
         inherited_from = From_category, source_id = Some (cat_id c)\<rparr>)
   \<and> (item_tax_applicable it = None
        \<and> (item_subcategory it = None
             \<or> item_subcategory it = Some s \<and> sub_tax_applicable s = None
                \<and> sub_category s = None)
        \<and> item_category it = None \<longrightarrow>
      getEffectiveTax it =
        \<lparr>tax_applicable = False, tax_percentage = 0,
         inherited_from = From_default, source_id = None\<rparr>)
   \<and> (\<not> tax_applicable (getEffectiveTax it) \<longrightarrow> tax_percentage (getEffectiveTax it) = 0)"
  by (auto simp: getEffectiveTax_def item_category_tax_def category_tax_def default_tax_def
           split: option.splits)

theorem C6_tax_resolution_witness:
  "getEffectiveTax ex_item_untaxed =
     \<lparr>tax_applicable = False, tax_percentage = 0,
      inherited_from = From_item, source_id = Some ''i1''\<rparr>
   \<and> getEffectiveTax (ex_static_item\<lparr>item_subcategory := Some ex_sub_taxed\<rparr>) =
     \<lparr>tax_applicable = True, tax_percentage = 12,
      inherited_from = From_subcategory, source_id = Some ''s1''\<rparr>
   \<and> getEffectiveTax (ex_static_item\<lparr>item_subcategory := Some ex_sub_inherit\<rparr>) =
     \<lparr>tax_applicable = True, tax_percentage = 5,
      inherited_from = From_category, source_id = Some ''c1''\<rparr>
   \<and> getEffectiveTax ex_static_item =
     \<lparr>tax_applicable = True, tax_percentage = 5,
      inherited_from = From_category, source_id = Some ''c1''\<rparr>
   \<and> getEffectiveTax ex_item_orphan =
     \<lparr>tax_applicable = False, tax_percentage = 0,
      inherited_from = From_default, source_id = None\<rparr>
   \<and> \<not> tax_applicable (getEffectiveTax ex_item_untaxed)
   \<and> item_tax_percentage ex_item_untaxed = Some 18
   \<and> tax_percentage (getEffectiveTax ex_item_untaxed) = 0"
  using C6_tax_resolution [of ex_item_untaxed False ex_sub_taxed ex_category]
    C6_tax_resolution [of "ex_static_item\<lparr>item_subcategory := Some ex_sub_taxed\<rparr>" True
      ex_sub_taxed ex_category]
    C6_tax_resolution [of "ex_static_item\<lparr>item_subcategory := Some ex_sub_inherit\<rparr>" True
      ex_sub_inherit ex_category]
    C6_tax_resolution [of ex_static_item True ex_sub_inherit ex_category]
    C6_tax_resolution [of ex_item_orphan True ex_sub_inherit ex_category]
  by (simp add: ex_item_untaxed_def ex_item_orphan_def ex_static_item_def ex_sub_taxed_def
        ex_sub_inherit_def ex_category_def or0_def)

text \<open>
  C7. For a rule whose window ends are valid time strings and an instant of the day: the
  test that \<open>calculateDynamicPrice\<close> applies to the rule holds iff the rule has no day
  set, or an empty one, or one containing the instant's day of the week, and the instant's
  minute of the day lies in the window \<open>[start, end)\<close>, a window with \<open>end < start\<close>
  wrapping past midnight. The rule the engine applies is the first one in priority order
  that passes this test.
\<close>

theorem C7_rule_matches:
  assumes "valid_time (rule_start_time rule)" and "valid_time (rule_end_time rule)"
    and "getHours dt < 24" and "getMinutes dt < 60"
  shows "(rule_matches rule (Some (getDay dt)) (currentTime_of (Date dt))
          \<longleftrightarrow> (rule_days rule = None \<or> rule_days rule = Some []
                \<or> (\<exists>ds. rule_days rule = Some ds \<and> getDay dt \<in> set ds))
              \<and> spec_in_window (minute_of_day (rule_start_time rule))
                   (minute_of_day (rule_end_time rule))
                   (getHours dt * 60 + getMinutes dt))
       \<and> res_rule_details (calculateDynamicPrice pc q (Date dt))
           = find (\<lambda>r. rule_matches r (Some (getDay dt)) (currentTime_of (Date dt)))
               (sortedRules pc)"
proof -
  have t: "isTimeInRange (currentTime_of (Date dt)) (rule_start_time rule) (rule_end_time rule)
      = spec_in_window (minute_of_day (rule_start_time rule))
                   (minute_of_day (rule_end_time rule))
                   (getHours dt * 60 + getMinutes dt)"
    by (simp add: isTimeInRange_def Let_def toMinutes_valid [OF assms(1)]
          toMinutes_valid [OF assms(2)] toMinutes_currentTime_of [OF assms(3,4)]
          js_lt_def js_le_def js_ge_def spec_in_window_def)
  have d: "isDayMatch rule (Some (getDay dt))
      = (rule_days rule = None \<or> rule_days rule = Some []
                \<or> (\<exists>ds. rule_days rule = Some ds \<and> getDay dt \<in> set ds))"
    by (auto simp: isDayMatch_def split: option.splits)
  show ?thesis
    by (simp add: rule_matches_def t d calculateDynamicPrice_def Date_getDay_def Let_def
          find_rule_find)
qed

theorem C7_rule_matches_witness:
  "valid_time (rule_start_time ex_night_rule) \<and> valid_time (rule_end_time ex_night_rule)
   \<and> rule_days ex_night_rule = Some []
   \<and> rule_matches ex_night_rule (Some 3) (currentTime_of (Date (ex_instant 3 23 30)))
   \<and> rule_matches ex_night_rule (Some 6) (currentTime_of (Date (ex_instant 6 1 0)))
   \<and> \<not> rule_matches ex_night_rule (Some 1) (currentTime_of (Date (ex_instant 1 12 0)))"
proof -
  have v: "valid_time (rule_start_time ex_night_rule)" "valid_time (rule_end_time ex_night_rule)"
    by (simp_all add: ex_night_rule_def is_digit_def)
  have t: "getHours (ex_instant 3 23 30) < 24" "getMinutes (ex_instant 3 23 30) < 60"
    "getHours (ex_instant 6 1 0) < 24" "getMinutes (ex_instant 6 1 0) < 60"
    "getHours (ex_instant 1 12 0) < 24" "getMinutes (ex_instant 1 12 0) < 60"
    by (simp_all add: ex_instant_def)
  have d: "getDay (ex_instant 3 23 30) = 3" "getDay (ex_instant 6 1 0) = 6"
    "getDay (ex_instant 1 12 0) = 1"
    by (simp_all add: ex_instant_def)
  have m: "minute_of_day (rule_start_time ex_night_rule) = 1320"
    "minute_of_day (rule_end_time ex_night_rule) = 120"
    by (simp_all add: ex_night_rule_def digit_val_def)
  have w: "spec_in_window 1320 120 (23 * 60 + 30)" "spec_in_window 1320 120 (1 * 60 + 0)"
    "\<not> spec_in_window 1320 120 (12 * 60 + 0)"
    by (simp_all add: spec_in_window_def)
  have g: "getHours (ex_instant 3 23 30) * 60 + getMinutes (ex_instant 3 23 30) = 23 * 60 + 30"
    "getHours (ex_instant 6 1 0) * 60 + getMinutes (ex_instant 6 1 0) = 1 * 60 + 0"
    "getHours (ex_instant 1 12 0) * 60 + getMinutes (ex_instant 1 12 0) = 12 * 60 + 0"
    by (simp_all add: ex_instant_def)
  have e: "rule_days ex_night_rule = Some []" by (simp add: ex_night_rule_def)
  from C7_rule_matches [OF v t(1,2), THEN conjunct1]
    C7_rule_matches [OF v t(3,4), THEN conjunct1]
    C7_rule_matches [OF v t(5,6), THEN conjunct1]
  show ?thesis
    unfolding d m g using v e w by simp
qed

text \<open>
  C8. Tiered evaluation works on the tiers sorted ascending by \<open>min_quantity\<close> and selects
  the first tier that contains the quantity. For a validated configuration and a quantity
  of at least 1 equal to the \<open>min_quantity\<close> or the \<open>max_quantity\<close> of a tier, that tier
  is the one selected. When no tier contains the quantity the result is labelled
  overflow and uses the last sorted tier, which has the highest \<open>min_quantity\<close>, or the
  configured default price when there are no tiers. The amount is the unit price times
  the quantity.
\<close>

theorem C8_tiered_selection:
  assumes "ptype pc = TIERED"
  shows "sorted (map min_quantity (sortedTiers pc)) \<and> set (sortedTiers pc) = set (tiers pc)
       \<and> (find (tier_contains q) (sortedTiers pc) = Some t \<longrightarrow>
            res_tier_details (PricingEngine_calculatePrice pc q dt) = Some (Tier_Of t)
            \<and> pricing_rule_applied (PricingEngine_calculatePrice pc q dt)
                = Tier_Label (min_quantity t) (max_quantity t)
            \<and> unit_price (PricingEngine_calculatePrice pc q dt) = tier_price t)
       \<and> (tiered_valid pc \<and> 1 \<le> q \<and> t \<in> set (tiers pc)
            \<and> (q = min_quantity t \<or> q = max_quantity t) \<longrightarrow>
            res_tier_details (PricingEngine_calculatePrice pc q dt) = Some (Tier_Of t)
            \<and> unit_price (PricingEngine_calculatePrice pc q dt) = tier_price t)
       \<and> (find (tier_contains q) (sortedTiers pc) = None \<and> tiers pc \<noteq> [] \<longrightarrow>
            pricing_rule_applied (PricingEngine_calculatePrice pc q dt) = Default_Overflow
            \<and> res_tier_details (PricingEngine_calculatePrice pc q dt)
                = Some (Tier_Of (last (sortedTiers pc)))
            \<and> unit_price (PricingEngine_calculatePrice pc q dt)
                = tier_price (last (sortedTiers pc))
            \<and> last (sortedTiers pc) \<in> set (tiers pc)
            \<and> (\<forall>u\<in>set (tiers pc).
                  min_quantity u \<le> min_quantity (last (sortedTiers pc))))
       \<and> (tiers pc = [] \<longrightarrow>
            pricing_rule_applied (PricingEngine_calculatePrice pc q dt) = Default_Overflow
            \<and> res_tier_details (PricingEngine_calculatePrice pc q dt)
                = Some (Default_Tier (or0 (default_price pc)))
            \<and> unit_price (PricingEngine_calculatePrice pc q dt) = or0 (default_price pc))
       \<and> calculated_price (PricingEngine_calculatePrice pc q dt)
           = unit_price (PricingEngine_calculatePrice pc q dt) * of_int q"
proof -
  have r: "PricingEngine_calculatePrice pc q dt = calculateTieredPrice pc q"
    using assms by (simp add: PricingEngine_calculatePrice_def)
  have found: "find (tier_contains q) (sortedTiers pc) = Some t \<longrightarrow>
            res_tier_details (calculateTieredPrice pc q) = Some (Tier_Of t)
            \<and> pricing_rule_applied (calculateTieredPrice pc q)
                = Tier_Label (min_quantity t) (max_quantity t)
            \<and> unit_price (calculateTieredPrice pc q) = tier_price t"
    by (simp add: calculateTieredPrice_def find_tier_find tier_unit_price_def Let_def)
  have boundary: "tiered_valid pc \<and> 1 \<le> q \<and> t \<in> set (tiers pc)
            \<and> (q = min_quantity t \<or> q = max_quantity t) \<longrightarrow>
            res_tier_details (calculateTieredPrice pc q) = Some (Tier_Of t)
            \<and> unit_price (calculateTieredPrice pc q) = tier_price t"
  proof
    assume a: "tiered_valid pc \<and> 1 \<le> q \<and> t \<in> set (tiers pc)
            \<and> (q = min_quantity t \<or> q = max_quantity t)"
    then have ok: "min_quantity t \<le> max_quantity t"
      by (auto simp: tiered_valid_def tier_schema_ok_def)
    have ov: "tier_overlaps 0 (sortedTiers pc) = []"
      using a assms
      by (auto simp: tiered_valid_def config_valid_def validatePricingConfig_def
            sortedTiers_def split: if_splits)
    have c: "min_quantity t \<le> q" "q \<le> max_quantity t" using a ok by auto
    have t: "t \<in> set (sortedTiers pc)" using a by (simp add: sortedTiers_props)
    have "find_tier (sortedTiers pc) q = Some t"
      using find_tier_unique [OF sortedTiers_props(1) ov t c] .
    then show "res_tier_details (calculateTieredPrice pc q) = Some (Tier_Of t)
            \<and> unit_price (calculateTieredPrice pc q) = tier_price t"
      by (simp add: calculateTieredPrice_def tier_unit_price_def Let_def)
  qed
  have overflow: "find (tier_contains q) (sortedTiers pc) = None \<and> tiers pc \<noteq> [] \<longrightarrow>
            pricing_rule_applied (calculateTieredPrice pc q) = Default_Overflow
            \<and> res_tier_details (calculateTieredPrice pc q)
                = Some (Tier_Of (last (sortedTiers pc)))
            \<and> unit_price (calculateTieredPrice pc q) = tier_price (last (sortedTiers pc))
            \<and> last (sortedTiers pc) \<in> set (tiers pc)
            \<and> (\<forall>u\<in>set (tiers pc).
                  min_quantity u \<le> min_quantity (last (sortedTiers pc)))"
  proof
    assume a: "find (tier_contains q) (sortedTiers pc) = None \<and> tiers pc \<noteq> []"
    then have ne: "sortedTiers pc \<noteq> []" by (simp add: sortedTiers_Nil)
    have l: "last (sortedTiers pc) \<in> set (tiers pc)"
      using last_in_set [OF ne] by (simp add: sortedTiers_props)
    have m: "\<forall>u\<in>set (tiers pc). min_quantity u \<le> min_quantity (last (sortedTiers pc))"
      using sorted_last_max [OF sortedTiers_props(1)] by (simp add: sortedTiers_props)
    show "pricing_rule_applied (calculateTieredPrice pc q) = Default_Overflow
            \<and> res_tier_details (calculateTieredPrice pc q)
                = Some (Tier_Of (last (sortedTiers pc)))
            \<and> unit_price (calculateTieredPrice pc q) = tier_price (last (sortedTiers pc))
            \<and> last (sortedTiers pc) \<in> set (tiers pc)
            \<and> (\<forall>u\<in>set (tiers pc).
                  min_quantity u \<le> min_quantity (last (sortedTiers pc)))"
      using a ne l m
      by (simp add: calculateTieredPrice_def find_tier_find tier_unit_price_def Let_def)
  qed
  have empty: "tiers pc = [] \<longrightarrow>
            pricing_rule_applied (calculateTieredPrice pc q) = Default_Overflow
            \<and> res_tier_details (calculateTieredPrice pc q)
                = Some (Default_Tier (or0 (default_price pc)))
            \<and> unit_price (calculateTieredPrice pc q) = or0 (default_price pc)"
    by (simp add: calculateTieredPrice_def sortedTiers_def tier_unit_price_def Let_def)
  have amount: "calculated_price (calculateTieredPrice pc q)
           = unit_price (calculateTieredPrice pc q) * of_int q"
    by (simp add: calculateTieredPrice_def Let_def split_def)
  show ?thesis
    unfolding r using found boundary overflow empty amount sortedTiers_props by blast
qed

theorem C8_tiered_selection_witness:
  "tiered_valid ex_tiered
   \<and> res_tier_details (PricingEngine_calculatePrice ex_tiered 5 ex_noon)
       = Some (Tier_Of (ex_tier 1 5 10))
   \<and> res_tier_details (PricingEngine_calculatePrice ex_tiered 6 ex_noon)
       = Some (Tier_Of (ex_tier 6 10 8))
   \<and> calculated_price (PricingEngine_calculatePrice ex_tiered 6 ex_noon) = 8 * of_int 6
   \<and> pricing_rule_applied (PricingEngine_calculatePrice ex_tiered 8 ex_noon) = Tier_Label 6 10
   \<and> pricing_rule_applied (PricingEngine_calculatePrice ex_tiered 25 ex_noon) = Default_Overflow
   \<and> res_tier_details (PricingEngine_calculatePrice ex_tiered 25 ex_noon)
       = Some (Tier_Of (ex_tier 11 20 6))
   \<and> calculated_price (PricingEngine_calculatePrice ex_tiered 25 ex_noon) = 6 * of_int 25
   \<and> res_tier_details (PricingEngine_calculatePrice ex_tierless 3 ex_noon)
       = Some (Default_Tier 12)
   \<and> calculated_price (PricingEngine_calculatePrice ex_tierless 3 ex_noon) = 12 * of_int 3"
proof -
  have p: "ptype ex_tiered = TIERED" "ptype ex_tierless = TIERED"
    by (simp_all add: ex_tiered_def ex_tierless_def no_pricing_def)
  have ts: "tiers ex_tiered = [ex_tier 11 20 6, ex_tier 1 5 10, ex_tier 6 10 8]"
    "tiers ex_tierless = []" "default_price ex_tierless = Some 12"
    by (simp_all add: ex_tiered_def ex_tierless_def no_pricing_def)
  have v: "tiered_valid ex_tiered"
    using ex_tiered_sorted
    by (simp add: tiered_valid_def config_valid_def validatePricingConfig_def p ts
          sortedTiers_def tier_schema_ok_def ex_tier_def)
  have f: "find (tier_contains 8) (sortedTiers ex_tiered) = Some (ex_tier 6 10 8)"
    "find (tier_contains 25) (sortedTiers ex_tiered) = None"
    by (simp_all add: ex_tiered_sorted tier_contains_def ex_tier_def)
  have l: "last (sortedTiers ex_tiered) = ex_tier 11 20 6"
    by (simp add: ex_tiered_sorted)
  have m: "max_quantity (ex_tier 1 5 10) = 5" "min_quantity (ex_tier 6 10 8) = 6"
    "max_quantity (ex_tier 6 10 8) = 10"
    "tier_price (ex_tier 6 10 8) = 8" "tier_price (ex_tier 11 20 6) = 6"
    by (simp_all add: ex_tier_def)
  from C8_tiered_selection [OF p(1), of 5 "ex_tier 1 5 10" ex_noon]
    C8_tiered_selection [OF p(1), of 6 "ex_tier 6 10 8" ex_noon]
    C8_tiered_selection [OF p(1), of 8 "ex_tier 6 10 8" ex_noon]
    C8_tiered_selection [OF p(1), of 25 "ex_tier 6 10 8" ex_noon]
    C8_tiered_selection [OF p(2), of 3 "ex_tier 6 10 8" ex_noon]
  show ?thesis
    using v f by (simp add: ts l m or0_def)
qed

text \<open>
  C9. \<open>checkAvailability\<close> answers available when the item declares no slots. Otherwise,
  for valid time strings, it answers available iff some slot on the date's day of the week
  contains the proposed interval (\<open>start \<ge> slotStart\<close> and \<open>end \<le> slotEnd\<close>), returning
  the first such slot, and it answers unavailable, with the reason that the time is not
  within the available hours, iff no slot contains it.
\<close>

theorem C9_checkAvailability:
  assumes "valid_time s" and "valid_time e"
    and "\<forall>slot\<in>set (availability_slots it).
           valid_time (slot_start_time slot) \<and> valid_time (slot_end_time slot)"
  shows "(availability_slots it = [] \<longrightarrow> checkAvailability it d s e = Available None)
       \<and> (availability_slots it \<noteq> [] \<longrightarrow>
            (is_available (checkAvailability it d s e)
               \<longleftrightarrow> (\<exists>slot\<in>set (availability_slots it). slot_contains (date_getDay d) s e slot))
            \<and> (checkAvailability it d s e = Unavailable Not_within_available_hours
               \<longleftrightarrow> \<not> (\<exists>slot\<in>set (availability_slots it).
                        slot_contains (date_getDay d) s e slot))
            \<and> checkAvailability it d s e
                = (case find (slot_contains (date_getDay d) s e) (availability_slots it) of
                     None \<Rightarrow> Unavailable Not_within_available_hours
                   | Some slot \<Rightarrow> Available (Some slot)))"
proof -
  have eq: "find (\<lambda>slot. slot_day slot = date_getDay d
                         \<and> isTimeWithinSlot s e (slot_start_time slot) (slot_end_time slot))
              (availability_slots it)
          = find (slot_contains (date_getDay d) s e) (availability_slots it)"
    by (rule find_cong)
       (use assms in \<open>simp_all add: isTimeWithinSlot_valid slot_contains_def\<close>)
  have c: "availability_slots it \<noteq> [] \<Longrightarrow> checkAvailability it d s e
                = (case find (slot_contains (date_getDay d) s e) (availability_slots it) of
                     None \<Rightarrow> Unavailable Not_within_available_hours
                   | Some slot \<Rightarrow> Available (Some slot))"
    by (simp add: checkAvailability_def Let_def eq)
  show ?thesis
  proof (cases "find (slot_contains (date_getDay d) s e) (availability_slots it)")
    case None
    then have n: "\<not> (\<exists>slot\<in>set (availability_slots it). slot_contains (date_getDay d) s e slot)"
      by (simp add: find_None_iff)
    show ?thesis
      using n c None by (auto simp: checkAvailability_def is_available_def)
  next
    case (Some x)
    from find_SomeD [OF Some]
    have y: "\<exists>slot\<in>set (availability_slots it). slot_contains (date_getDay d) s e slot"
      by blast
    then have ne: "availability_slots it \<noteq> []" by auto
    show ?thesis
      using y ne c [OF ne] Some by (simp add: is_available_def)
  qed
qed

theorem C9_checkAvailability_witness:
  "date_getDay 19737 = 1
   \<and> checkAvailability ex_static_item 19737 ''23:00'' ''23:30'' = Available None
   \<and> checkAvailability ex_bookable_item 19737 ''10:00'' ''11:00'' = Available (Some ex_slot)
   \<and> checkAvailability ex_bookable_item 19737 ''17:30'' ''18:30''
       = Unavailable Not_within_available_hours
   \<and> checkAvailability ex_bookable_item 19738 ''10:00'' ''11:00''
       = Unavailable Not_within_available_hours"
proof -
  have v: "valid_time ''23:00''" "valid_time ''23:30''" "valid_time ''10:00''"
    "valid_time ''11:00''" "valid_time ''17:30''" "valid_time ''18:30''"
    by (simp_all add: is_digit_def)
  have s0: "\<forall>slot\<in>set (availability_slots ex_static_item).
           valid_time (slot_start_time slot) \<and> valid_time (slot_end_time slot)"
    by (simp add: ex_static_item_def)
  have s1: "\<forall>slot\<in>set (availability_slots ex_bookable_item).
           valid_time (slot_start_time slot) \<and> valid_time (slot_end_time slot)"
    by (simp add: ex_bookable_item_def ex_slot_def is_digit_def)
  have a: "availability_slots ex_static_item = []" "availability_slots ex_bookable_item = [ex_slot]"
    by (simp_all add: ex_static_item_def ex_bookable_item_def)
  have c: "slot_contains 1 ''10:00'' ''11:00'' ex_slot"
    "\<not> slot_contains 1 ''17:30'' ''18:30'' ex_slot"
    "\<not> slot_contains 2 ''10:00'' ''11:00'' ex_slot"
    by (simp_all add: slot_contains_def ex_slot_def digit_val_def)
  have g: "date_getDay 19737 = 1" "date_getDay 19738 = 2"
    by (simp_all add: date_getDay_def)
  from C9_checkAvailability [OF v(1,2) s0, of 19737]
    C9_checkAvailability [OF v(3,4) s1, of 19737]
    C9_checkAvailability [OF v(5,6) s1, of 19737]
    C9_checkAvailability [OF v(3,4) s1, of 19738]
  show ?thesis
    unfolding a g using c g by simp
qed

text \<open>
  C10. In the quote, add-on validation runs over the selections the caller supplies and
  nothing else. A selection naming a group that is not attached to the item is skipped: the
  quote is the same as without it. A group attached to the item that no selection names
  has no influence on the quote. So a mandatory group with \<open>min_selections \<ge> 1\<close>, which
  would reject an empty selection, can be left out altogether and the quote of an active
  item still succeeds, with an add-ons total of 0.
\<close>

theorem C10_addon_validation_scope:
  "(sel_addon_group sel \<notin> group_id ` set (addon_groups it) \<longrightarrow>
      calculatePrice (Some it) q dt (sels1 @ sel # sels2)
      = calculatePrice (Some it) q dt (sels1 @ sels2))
   \<and> ((\<forall>s\<in>set sels. sel_addon_group s \<noteq> group_id g) \<longrightarrow>
      calculatePrice (Some (it\<lparr>addon_groups := gs1 @ g # gs2\<rparr>)) q dt sels
      = calculatePrice (Some (it\<lparr>addon_groups := gs1 @ gs2\<rparr>)) q dt sels)
   \<and> (is_active it \<and> g \<in> set (addon_groups it) \<and> group_type g = MANDATORY
        \<and> 1 \<le> min_selections g \<longrightarrow>
      validateSelections g [] = Invalid (Minimum_required (min_selections g) (group_name g))
      \<and> (\<exists>r. calculatePrice (Some it) q dt [] = Inr r
             \<and> addons_total r = 0 \<and> addons_details r = []
             \<and> subtotal r = calculated_price (PricingEngine_calculatePrice (pricing it) q dt)))"
proof (intro conjI impI)
  assume "sel_addon_group sel \<notin> group_id ` set (addon_groups it)"
  then show "calculatePrice (Some it) q dt (sels1 @ sel # sels2)
      = calculatePrice (Some it) q dt (sels1 @ sels2)"
    by (simp add: calculatePrice_def price_addons_skip)
next
  assume "\<forall>s\<in>set sels. sel_addon_group s \<noteq> group_id g"
  then show "calculatePrice (Some (it\<lparr>addon_groups := gs1 @ g # gs2\<rparr>)) q dt sels
      = calculatePrice (Some (it\<lparr>addon_groups := gs1 @ gs2\<rparr>)) q dt sels"
    by (simp add: calculatePrice_def price_addons_unreferenced getEffectiveTax_addon_groups
          Let_def split: sum.splits prod.splits)
next
  assume a: "is_active it \<and> g \<in> set (addon_groups it) \<and> group_type g = MANDATORY
        \<and> 1 \<le> min_selections g"
  then show "validateSelections g [] = Invalid (Minimum_required (min_selections g) (group_name g))"
    by (simp add: validateSelections_def)
next
  assume a: "is_active it \<and> g \<in> set (addon_groups it) \<and> group_type g = MANDATORY
        \<and> 1 \<le> min_selections g"
  then show "\<exists>r. calculatePrice (Some it) q dt [] = Inr r
             \<and> addons_total r = 0 \<and> addons_details r = []
             \<and> subtotal r = calculated_price (PricingEngine_calculatePrice (pricing it) q dt)"
    by (simp add: calculatePrice_def Let_def)
qed

theorem C10_addon_validation_scope_witness:
  "is_active ex_static_item \<and> ex_group \<in> set (addon_groups ex_static_item)
   \<and> group_type ex_group = MANDATORY \<and> 1 \<le> min_selections ex_group
   \<and> validateSelections ex_group [] = Invalid (Minimum_required 1 ''Choose your sauce'')
   \<and> (\<exists>r. calculatePrice (Some ex_static_item) 2 ex_noon [] = Inr r
          \<and> addons_total r = 0 \<and> subtotal r = 200)
   \<and> calculatePrice (Some ex_static_item) 2 ex_noon
        [\<lparr>sel_addon_group = ''unknown'', sel_addon_ids = [''a1'']\<rparr>]
       = calculatePrice (Some ex_static_item) 2 ex_noon []
   \<and> calculatePrice (Some ex_static_item) 2 ex_noon []
       = calculatePrice (Some (ex_static_item\<lparr>addon_groups := []\<rparr>)) 2 ex_noon []"
proof -
  have h: "is_active ex_static_item" "ex_group \<in> set (addon_groups ex_static_item)"
    "group_type ex_group = MANDATORY" "1 \<le> min_selections ex_group"
    by (simp_all add: ex_static_item_def ex_group_def)
  have u: "sel_addon_group \<lparr>sel_addon_group = ''unknown'', sel_addon_ids = [''a1'']\<rparr>
         \<notin> group_id ` set (addon_groups ex_static_item)"
    by (simp add: ex_static_item_def ex_group_def)
  have n: "\<forall>s\<in>set ([] :: addon_selection list). sel_addon_group s \<noteq> group_id ex_group"
    by simp
  have i: "ex_static_item\<lparr>addon_groups := [ex_group]\<rparr> = ex_static_item"
    by (simp add: ex_static_item_def)
  have p: "calculated_price (PricingEngine_calculatePrice (pricing ex_static_item) 2 ex_noon) = 200"
    by (simp add: ex_static_item_def no_pricing_def PricingEngine_calculatePrice_def
          calculateStaticPrice_def or0_def)
  have m: "min_selections ex_group = 1" "group_name ex_group = ''Choose your sauce''"
    by (simp_all add: ex_group_def)
  note t = C10_addon_validation_scope
         [of "\<lparr>sel_addon_group = ''unknown'', sel_addon_ids = [''a1'']\<rparr>" ex_static_item
             2 ex_noon "[]" "[]" "[]" ex_group "[]" "[]"]
  have e1: "calculatePrice (Some ex_static_item) 2 ex_noon
        [\<lparr>sel_addon_group = ''unknown'', sel_addon_ids = [''a1'']\<rparr>]
       = calculatePrice (Some ex_static_item) 2 ex_noon []"
    using t u by simp
  have e2: "calculatePrice (Some ex_static_item) 2 ex_noon []
       = calculatePrice (Some (ex_static_item\<lparr>addon_groups := []\<rparr>)) 2 ex_noon []"
    using t n by (simp add: i)
  have e3: "validateSelections ex_group [] = Invalid (Minimum_required 1 ''Choose your sauce'')"
    using t h by (simp add: m)
  have e4: "\<exists>r. calculatePrice (Some ex_static_item) 2 ex_noon [] = Inr r
          \<and> addons_total r = 0 \<and> subtotal r = 200"
    using t h unfolding p by blast
  show ?thesis
    using h e1 e2 e3 e4 by blast
qed

end
